theory Spec2Isabelle
  imports Complex_Main "HOL-Library.Word"
begin

unbundle bit_operations_syntax

section \<open>The beacon DAQ driver (src/beacondaq.c)\<close>

text \<open>
  A shallow embedding of the SPI transaction engine of \<^verbatim>\<open>beacondaq.c\<close>: the transfer
  batcher, the synchronized command, the register gateway, the attenuator setters, the
  event readout, the wait loop, the handle initialisation of \<^verbatim>\<open>beacon_open\<close> and the
  delay stage of the ADC alignment.

  C \<^verbatim>\<open>int\<close> and \<^verbatim>\<open>long\<close> values that cannot overflow on the paths modelled are \<open>int\<close>;
  \<^verbatim>\<open>uint8_t\<close>, \<^verbatim>\<open>uint16_t\<close>, \<^verbatim>\<open>uint32_t\<close> and \<^verbatim>\<open>uint64_t\<close> are words. The mutexes (\<^verbatim>\<open>USING\<close>,
  \<^verbatim>\<open>DONE\<close>) protect against other threads and have no effect on a single caller; only the
  try-lock of the wait mutex is kept, as a flag. Diagnostics printed on \<^verbatim>\<open>stderr\<close> are
  not part of the state.
\<close>

subsection \<open>Constants\<close>

type_synonym u8 = "8 word"
type_synonym u16 = "16 word"
type_synonym u32 = "32 word"
type_synonym u64 = "64 word"

text \<open>
  Modelled from the spec: \<^verbatim>\<open>beacondaq.h\<close> is not under src/, so the constants it declares
  are taken from the specification: a frame has four bytes (\<^verbatim>\<open>BN_WORD_SIZE\<close>), a board has
  four ring buffers and eight channels, chunk-select registers are \<^verbatim>\<open>0x23\<close> to \<^verbatim>\<open>0x26\<close>
  (four chunks), and the handle has room for two boards.
\<close>

definition BN_SPI_BYTES :: int where "BN_SPI_BYTES = 4"
definition BN_NUM_BUFFER :: nat where "BN_NUM_BUFFER = 4"
definition BN_NUM_CHAN :: nat where "BN_NUM_CHAN = 8"
definition BN_NUM_CHUNK :: nat where "BN_NUM_CHUNK = 4"
definition BN_MAX_BOARDS :: int where "BN_MAX_BOARDS = 2"

definition MAX_XFERS :: int where "MAX_XFERS = 511"
definition MIN_GOOD_MAX_V :: int where "MIN_GOOD_MAX_V = 20"
definition MAX_MISERY :: int where "MAX_MISERY = 100"

text \<open>The register map: the members of \<^verbatim>\<open>beacon_register_t\<close> that the model uses.\<close>

definition REG_FIRMWARE_VER :: u8 where "REG_FIRMWARE_VER = 0x01"
definition REG_STATUS :: u8 where "REG_STATUS = 0x07"
definition REG_CLEAR_STATUS :: u8 where "REG_CLEAR_STATUS = 0x09"
definition REG_EVENT_COUNTER_LOW :: u8 where "REG_EVENT_COUNTER_LOW = 0x0a"
definition REG_EVENT_COUNTER_HIGH :: u8 where "REG_EVENT_COUNTER_HIGH = 0x0b"
definition REG_TRIG_COUNTER_LOW :: u8 where "REG_TRIG_COUNTER_LOW = 0x0c"
definition REG_TRIG_COUNTER_HIGH :: u8 where "REG_TRIG_COUNTER_HIGH = 0x0d"
definition REG_TRIG_TIME_LOW :: u8 where "REG_TRIG_TIME_LOW = 0x0e"
definition REG_TRIG_TIME_HIGH :: u8 where "REG_TRIG_TIME_HIGH = 0x0f"
definition REG_DEADTIME :: u8 where "REG_DEADTIME = 0x10"
definition REG_TRIG_INFO :: u8 where "REG_TRIG_INFO = 0x11"
definition REG_CH_MASKS :: u8 where "REG_CH_MASKS = 0x12"
definition REG_LAST_BEAM :: u8 where "REG_LAST_BEAM = 0x14"
definition REG_TRIG_BEAM_POWER :: u8 where "REG_TRIG_BEAM_POWER = 0x15"
definition REG_PPS_COUNTER :: u8 where "REG_PPS_COUNTER = 0x16"
definition REG_HD_DYN_MASK :: u8 where "REG_HD_DYN_MASK = 0x17"
definition REG_USER_MASK :: u8 where "REG_USER_MASK = 0x18"
definition REG_VETO_DEADTIME_CTR :: u8 where "REG_VETO_DEADTIME_CTR = 0x19"
definition REG_CHUNK :: u8 where "REG_CHUNK = 0x23"
definition REG_SYNC :: u8 where "REG_SYNC = 0x27"
definition REG_ATTEN_012 :: u8 where "REG_ATTEN_012 = 0x32"
definition REG_ATTEN_345 :: u8 where "REG_ATTEN_345 = 0x33"
definition REG_ATTEN_67 :: u8 where "REG_ATTEN_67 = 0x34"
definition REG_ATTEN_APPLY :: u8 where "REG_ATTEN_APPLY = 0x35"
definition REG_ADC_DELAYS :: u8 where "REG_ADC_DELAYS = 0x38"
definition REG_CHANNEL :: u8 where "REG_CHANNEL = 0x41"
definition REG_MODE :: u8 where "REG_MODE = 0x42"
definition REG_RAM_ADDR :: u8 where "REG_RAM_ADDR = 0x45"
definition REG_CLEAR :: u8 where "REG_CLEAR = 0x4d"
definition REG_BUFFER :: u8 where "REG_BUFFER = 0x4e"
definition REG_PHASED_TRIGGER :: u8 where "REG_PHASED_TRIGGER = 0x54"
definition REG_TIMESTAMP_SELECT :: u8 where "REG_TIMESTAMP_SELECT = 0x58"
definition REG_SET_READ_REG :: u8 where "REG_SET_READ_REG = 0x6d"
definition REG_RESET_COUNTER :: u8 where "REG_RESET_COUNTER = 0x7e"

text \<open>The readout modes (\<^verbatim>\<open>beacon_readout_mode_t\<close>), as the integers the handle caches.\<close>

definition MODE_REGISTER :: int where "MODE_REGISTER = 0"
definition MODE_WAVEFORMS :: int where "MODE_WAVEFORMS = 1"

text \<open>\<^verbatim>\<open>errno\<close> values returned by \<^verbatim>\<open>beacon_wait\<close> (Linux).\<close>

definition EINTR :: int where "EINTR = 4"
definition EAGAIN :: int where "EAGAIN = 11"
definition EBUSY :: int where "EBUSY = 16"

subsection \<open>Frames and the precomputed frame tables\<close>

text \<open>A frame is the C array \<^verbatim>\<open>uint8_t[BN_SPI_BYTES]\<close>: element 0 first.\<close>

datatype frame = Frame (fb0: u8) (fb1: u8) (fb2: u8) (fb3: u8)

text \<open>
  The tables filled by \<^verbatim>\<open>fillBuffers\<close>: entry \<open>i\<close> holds the register in byte 0 and \<open>i\<close> in
  byte 3 (for \<^verbatim>\<open>buf_channel\<close>, \<^verbatim>\<open>1 << i\<close>; for \<^verbatim>\<open>buf_chunk\<close>, the register is \<^verbatim>\<open>REG_CHUNK + i\<close>
  and byte 3 is 0). The C arrays are bounded; the model indexes them by \<open>nat\<close> and stores the
  index in a byte, so an index beyond the C array (which no modelled path with
  \<^verbatim>\<open>buffer_length\<close> at most 4080 produces) yields the frame of the index modulo 256.
\<close>

definition buf_mode :: "nat \<Rightarrow> frame" where
  "buf_mode i = Frame REG_MODE 0 0 (of_nat i)"

definition buf_set_read_reg :: "u8 \<Rightarrow> frame" where
  "buf_set_read_reg a = Frame REG_SET_READ_REG 0 0 a"

definition buf_channel :: "nat \<Rightarrow> frame" where
  "buf_channel i = Frame REG_CHANNEL 0 0 (push_bit i 1)"

definition buf_buffer :: "nat \<Rightarrow> frame" where
  "buf_buffer i = Frame REG_BUFFER 0 0 (of_nat i)"

definition buf_chunk :: "nat \<Rightarrow> frame" where
  "buf_chunk i = Frame (REG_CHUNK + of_nat i) 0 0 0"

definition buf_ram_addr :: "nat \<Rightarrow> frame" where
  "buf_ram_addr i = Frame REG_RAM_ADDR 0 0 (of_nat i)"

definition buf_clear :: "nat \<Rightarrow> frame" where
  "buf_clear i = Frame REG_CLEAR 0 0 (of_nat i)"

definition buf_reset_buf :: frame where
  "buf_reset_buf = Frame REG_CLEAR 0 1 0"

definition buf_sync_on :: frame where
  "buf_sync_on = Frame REG_SYNC 0 0 1"

definition buf_sync_off :: frame where
  "buf_sync_off = Frame REG_SYNC 0 0 0"

definition buf_reset_counter :: frame where
  "buf_reset_counter = Frame REG_RESET_COUNTER 0 0 1"

definition buf_apply_attenuation :: frame where
  "buf_apply_attenuation = Frame REG_ATTEN_APPLY 0 0 0"

subsection \<open>The handle and the outside world\<close>

datatype beacon_which_board_t = MASTER | SLAVE

text \<open>
  Where the driver asks the kernel to put the four bytes a transfer receives: each
  constructor names one C object whose address \<^verbatim>\<open>beacon_read_multiple_ptr\<close> or a register
  read passes as \<^verbatim>\<open>rx_buf\<close>. \<open>Rx_local n\<close> is the \<open>n\<close>-th local result array of the calling
  function; \<open>Rx_data iout ibd ichan k\<close> is the \<open>k\<close>-th four-byte word of
  \<^verbatim>\<open>ev[iout]->data[ibd][ichan]\<close>.
\<close>

datatype rx_dst =
    Rx_local nat
  | Rx_event_counter nat
  | Rx_trig_counter nat
  | Rx_trig_time nat
  | Rx_deadtime
  | Rx_tinfo
  | Rx_tmask
  | Rx_last_beam
  | Rx_hd_beam_mask nat
  | Rx_hd_beam_power nat
  | Rx_hd_pps_counter nat
  | Rx_hd_dynamic_beam_mask nat
  | Rx_hd_veto_deadtime_counter nat
  | Rx_data nat beacon_which_board_t nat nat

text \<open>
  One entry of the transfer list (\<^verbatim>\<open>struct spi_ioc_transfer\<close>): the frame to send, or none
  (\<^verbatim>\<open>tx_buf = 0\<close>), and where to receive, or nowhere (\<^verbatim>\<open>rx_buf = 0\<close>). The length, chip-select
  and delay members are set once by \<^verbatim>\<open>setup_xfers\<close> and never read by the driver.
\<close>

record spi_ioc_transfer =
  tx_buf :: "frame option"
  rx_buf :: "rx_dst option"

record timespec =
  tv_sec :: int
  tv_nsec :: int

text \<open>\<^verbatim>\<open>struct beacon_dev\<close>. The arrays of two are functions of the board.\<close>

record beacon_dev =
  fd :: "beacon_which_board_t \<Rightarrow> int"
  enable_locking :: int
  readout_number_offset :: u64
  event_counter :: u64
  buffer_length :: u16
  wait_mut_locked :: bool
  board_id :: "beacon_which_board_t \<Rightarrow> u8"
  channel_read_mask :: "beacon_which_board_t \<Rightarrow> u8"
  cancel_wait :: int
  start_time :: timespec
  next_read_buffer :: u8
  hardware_next :: u8
  poll_interval :: u16
  spi_clock :: int
  cs_change :: int
  delay_us :: int
  pretrigger :: u8
  buf :: "beacon_which_board_t \<Rightarrow> nat \<Rightarrow> spi_ioc_transfer"
  nused :: "beacon_which_board_t \<Rightarrow> int"
  current_buf :: "beacon_which_board_t \<Rightarrow> int"
  current_mode :: "beacon_which_board_t \<Rightarrow> int"

text \<open>
  Everything outside the process. The \<open>k\<close>-th multi-transfer ioctl, asked for \<open>n\<close> transfers, returns \<open>xfer_ret k n\<close> and
  delivers \<open>xfer_rx k i\<close> into the receive buffer of its \<open>i\<close>-th transfer; the \<open>k\<close>-th
  \<^verbatim>\<open>write\<close> returns \<open>write_ret k\<close>; \<open>clock c k\<close> is what clock \<open>c\<close> shows when the process
  reads a clock for the \<open>k\<close>-th time;
  \<open>cancel_by k\<close> says whether another thread or a signal handler has called
  \<^verbatim>\<open>beacon_cancel_wait\<close> by the \<open>k\<close>-th poll of a wait. \<open>spi_log\<close> records, in order, every
  frame handed to the kernel with the file descriptor it went to (\<open>None\<close> for a
  receive-only transfer); \<open>sched_log\<close> records the sleeps and yields of the wait loop;
  \<open>mem\<close> is the content of the receive buffers.
\<close>

datatype sched_event = Usleep nat | Sched_yield

datatype clockid_t = CLOCK_REALTIME | CLOCK_MONOTONIC

record world =
  xfer_ret :: "nat \<Rightarrow> nat \<Rightarrow> int"
  xfer_rx :: "nat \<Rightarrow> nat \<Rightarrow> frame"
  n_xfer :: nat
  write_ret :: "nat \<Rightarrow> int"
  n_write :: nat
  clock :: "clockid_t \<Rightarrow> nat \<Rightarrow> timespec"
  n_clock :: nat
  cancel_by :: "nat \<Rightarrow> bool"
  n_poll :: nat
  spi_log :: "(int \<times> frame option) list"
  sched_log :: "sched_event list"
  mem :: "rx_dst \<Rightarrow> frame"

text \<open>\<^verbatim>\<open>#define NBD(d) (1)\<close>: the number of boards the loops visit.\<close>

definition NBD :: "beacon_dev \<Rightarrow> int" where
  "NBD d = 1"

text \<open>The boards \<^verbatim>\<open>for (ibd = 0; ibd < n; ibd++)\<close> visits.\<close>

definition board_range :: "int \<Rightarrow> beacon_which_board_t list" where
  "board_range n = take (nat n) [MASTER, SLAVE]"

subsection \<open>I/O wrappers\<close>

text \<open>Storing what the ioctl received: transfer \<open>i\<close> with a receive buffer gets \<open>rx i\<close>.\<close>

fun store_rx :: "(nat \<Rightarrow> frame) \<Rightarrow> nat \<Rightarrow> spi_ioc_transfer list \<Rightarrow> (rx_dst \<Rightarrow> frame) \<Rightarrow> (rx_dst \<Rightarrow> frame)" where
  "store_rx rx i [] m = m"
| "store_rx rx i (x # xs) m =
     store_rx rx (Suc i) xs (case rx_buf x of None \<Rightarrow> m | Some dst \<Rightarrow> m(dst := rx i))"

definition do_xfer :: "int \<Rightarrow> spi_ioc_transfer list \<Rightarrow> world \<Rightarrow> int \<times> world" where
  "do_xfer f xs w =
     (let k = n_xfer w in
      (xfer_ret w k (length xs),
       w\<lparr>n_xfer := Suc k,
         spi_log := spi_log w @ map (\<lambda>x. (f, tx_buf x)) xs,
         mem := store_rx (xfer_rx w k) 0 xs (mem w)\<rparr>))"

definition do_write :: "int \<Rightarrow> frame \<Rightarrow> world \<Rightarrow> int \<times> world" where
  "do_write f p w =
     (let k = n_write w in
      (write_ret w k, w\<lparr>n_write := Suc k, spi_log := spi_log w @ [(f, Some p)]\<rparr>))"

definition clock_gettime :: "clockid_t \<Rightarrow> world \<Rightarrow> timespec \<times> world" where
  "clock_gettime clk w = (clock w clk (n_clock w), w\<lparr>n_clock := Suc (n_clock w)\<rparr>)"

subsection \<open>The transfer batcher\<close>

text \<open>The queued transfers: entries \<open>0 .. nused - 1\<close> of the board's array.\<close>

definition queued :: "beacon_dev \<Rightarrow> beacon_which_board_t \<Rightarrow> spi_ioc_transfer list" where
  "queued d which = map (buf d which) [0 ..< nat (nused d which)]"

text \<open>
  \<^verbatim>\<open>buffer_send\<close>: nothing to do on an empty list; otherwise one ioctl, and the list is
  reset only after the ioctl returned at least \<^verbatim>\<open>nused * BN_SPI_BYTES\<close>.
\<close>

definition buffer_send :: "beacon_dev \<Rightarrow> beacon_which_board_t \<Rightarrow> world \<Rightarrow> int \<times> beacon_dev \<times> world" where
  "buffer_send d which w =
     (if nused d which = 0 then (0, d, w)
      else
        let (wrote, w1) = do_xfer (fd d which) (queued d which) w in
        if wrote < nused d which * BN_SPI_BYTES then (-1, d, w1)
        else (0, d\<lparr>nused := (nused d)(which := 0)\<rparr>, w1))"

text \<open>\<^verbatim>\<open>buffer_append\<close>: flush first when the list is full, give up when that flush fails.\<close>

definition enqueue :: "beacon_dev \<Rightarrow> beacon_which_board_t \<Rightarrow> frame option \<Rightarrow> rx_dst option \<Rightarrow> beacon_dev" where
  "enqueue d which txbuf rxbuf =
     d\<lparr>buf := (buf d)(which := (buf d which)(nat (nused d which) := \<lparr>tx_buf = txbuf, rx_buf = rxbuf\<rparr>)),
       nused := (nused d)(which := nused d which + 1)\<rparr>"

definition buffer_append :: "beacon_dev \<Rightarrow> beacon_which_board_t \<Rightarrow> frame option \<Rightarrow> rx_dst option \<Rightarrow> world \<Rightarrow> int \<times> beacon_dev \<times> world" where
  "buffer_append d which txbuf rxbuf w =
     (if nused d which \<ge> MAX_XFERS then
        (let (r, d1, w1) = buffer_send d which w in
         if r \<noteq> 0 then (-1, d1, w1)
         else (0, enqueue d1 which txbuf rxbuf, w1))
      else (0, enqueue d which txbuf rxbuf, w))"

definition append_read_register :: "beacon_dev \<Rightarrow> beacon_which_board_t \<Rightarrow> u8 \<Rightarrow> rx_dst \<Rightarrow> world \<Rightarrow> int \<times> beacon_dev \<times> world" where
  "append_read_register d which address result w =
     (let (r1, d1, w1) = buffer_append d which (Some (buf_set_read_reg address)) None w;
          (r2, d2, w2) = buffer_append d1 which None (Some result) w1
      in (r1 + r2, d2, w2))"


subsection \<open>Synchronized command and buffer release\<close>

text \<open>
  \<^verbatim>\<open>synchronized_command\<close>. A null \<^verbatim>\<open>cmd\<close> is never passed; the result pointers are
  used only when \<^verbatim>\<open>reg_to_read_after\<close> is not zero.
\<close>

definition synchronized_command :: "beacon_dev \<Rightarrow> frame \<Rightarrow> u8 \<Rightarrow> rx_dst \<Rightarrow> rx_dst \<Rightarrow> world \<Rightarrow> int \<times> beacon_dev \<times> world" where
  "synchronized_command d cmd reg_to_read_after result_master result_slave w =
     (if NBD d < 2 then
        (let (r1, d1, w1) = buffer_append d MASTER (Some cmd) None w;
             (r2, d2, w2) =
               (if reg_to_read_after \<noteq> 0
                then append_read_register d1 MASTER reg_to_read_after result_master w1
                else (0, d1, w1));
             (r3, d3, w3) = buffer_send d2 MASTER w2
         in (r1 + r2 + r3, d3, w3))
      else
        (let (r1, d1, w1) = buffer_append d MASTER (Some buf_sync_on) None w;
             (r2, d2, w2) = buffer_send d1 MASTER w1;
             (r3, d3, w3) = buffer_append d2 SLAVE (Some cmd) None w2;
             (r4, d4, w4) = buffer_send d3 SLAVE w3;
             (r5, d5, w5) = buffer_append d4 MASTER (Some cmd) None w4;
             (r6, d6, w6) = buffer_append d5 MASTER (Some buf_sync_off) None w5;
             (r7, d7, w7) = buffer_send d6 MASTER w6;
             ret = r1 + r2 + r3 + r4 + r5 + r6 + r7
         in if reg_to_read_after \<noteq> 0 then
              (let (r8, d8, w8) = append_read_register d7 MASTER reg_to_read_after result_master w7;
                   (r9, d9, w9) = append_read_register d8 SLAVE reg_to_read_after result_slave w8;
                   (r10, d10, w10) = buffer_send d9 SLAVE w9;
                   (r11, d11, w11) = buffer_send d10 MASTER w10
               in (ret + r8 + r9 + r10 + r11, d11, w11))
            else (ret, d7, w7)))"

text \<open>
  \<^verbatim>\<open>mark_buffers_done\<close>: the clear-status bytes read back are inspected by empty
  \<^verbatim>\<open>if\<close> bodies only, so they do not influence the result.
\<close>

definition mark_buffers_done :: "beacon_dev \<Rightarrow> u8 \<Rightarrow> world \<Rightarrow> int \<times> beacon_dev \<times> world" where
  "mark_buffers_done d bufmask w =
     (if NBD d < 2 then
        (let (r1, d1, w1) = buffer_append d MASTER (Some (buf_clear (unat bufmask))) None w;
             (r2, d2, w2) = append_read_register d1 MASTER REG_CLEAR_STATUS (Rx_local 0) w1;
             (r3, d3, w3) = buffer_send d2 MASTER w2
         in (r1 + r2 + r3, d3, w3))
      else
        (let (ret, d1, w1) =
               synchronized_command d (buf_clear (unat bufmask)) REG_CLEAR_STATUS (Rx_local 0) (Rx_local 1) w
         in if ret = 0 then (0, d1, w1) else (ret, d1, w1)))"

subsection \<open>Waveform streaming\<close>

text \<open>
  \<^verbatim>\<open>loop_over_chunks_half_duplex\<close>: for each address one select frame, then for each chunk
  a chunk frame and a receive-only transfer; the first failing append ends it.
  \<open>result k\<close> is the destination of the \<open>k\<close>-th four-byte word behind the C pointer
  \<^verbatim>\<open>result\<close>.
\<close>

fun chunk_loop :: "beacon_dev \<Rightarrow> beacon_which_board_t \<Rightarrow> (nat \<Rightarrow> rx_dst) \<Rightarrow> nat \<Rightarrow> nat list \<Rightarrow> world \<Rightarrow> int \<times> beacon_dev \<times> world" where
  "chunk_loop d which result iaddr [] w = (0, d, w)"
| "chunk_loop d which result iaddr (ichunk # rest) w =
     (let (r1, d1, w1) = buffer_append d which (Some (buf_chunk ichunk)) None w in
      if r1 \<noteq> 0 then (r1, d1, w1)
      else
        let (r2, d2, w2) =
              buffer_append d1 which None (Some (result (BN_NUM_CHUNK * iaddr + ichunk))) w1 in
        if r2 \<noteq> 0 then (r2, d2, w2)
        else chunk_loop d2 which result iaddr rest w2)"

fun addr_loop :: "beacon_dev \<Rightarrow> beacon_which_board_t \<Rightarrow> (nat \<Rightarrow> rx_dst) \<Rightarrow> nat \<Rightarrow> nat list \<Rightarrow> world \<Rightarrow> int \<times> beacon_dev \<times> world" where
  "addr_loop d which result start_address [] w = (0, d, w)"
| "addr_loop d which result start_address (iaddr # rest) w =
     (let (r1, d1, w1) =
            buffer_append d which (Some (buf_ram_addr (start_address + iaddr))) None w in
      if r1 \<noteq> 0 then (r1, d1, w1)
      else
        let (r2, d2, w2) = chunk_loop d1 which result iaddr [0 ..< BN_NUM_CHUNK] w1 in
        if r2 \<noteq> 0 then (r2, d2, w2)
        else addr_loop d2 which result start_address rest w2)"

definition loop_over_chunks_half_duplex :: "beacon_dev \<Rightarrow> beacon_which_board_t \<Rightarrow> nat \<Rightarrow> nat \<Rightarrow> (nat \<Rightarrow> rx_dst) \<Rightarrow> world \<Rightarrow> int \<times> beacon_dev \<times> world" where
  "loop_over_chunks_half_duplex d which naddr start_address result w =
     addr_loop d which result start_address [0 ..< naddr] w"

subsection \<open>Register gateway\<close>

definition beacon_read_register :: "beacon_dev \<Rightarrow> u8 \<Rightarrow> rx_dst \<Rightarrow> beacon_which_board_t \<Rightarrow> world \<Rightarrow> int \<times> beacon_dev \<times> world" where
  "beacon_read_register d address result which w =
     (let (r1, d1, w1) = append_read_register d which address result w;
          (r2, d2, w2) = buffer_send d1 which w1;
          ret = r1 + r2
      in (if fb0 (mem w2 result) \<noteq> address then ret + 1 else ret, d2, w2))"

text \<open>
  \<^verbatim>\<open>beacon_check_buffers\<close>; \<open>store_next\<close> says whether the \<^verbatim>\<open>next\<close> pointer is given. The one
  caller in the model passes \<^verbatim>\<open>&d->hardware_next\<close>.
\<close>

definition beacon_check_buffers :: "beacon_dev \<Rightarrow> bool \<Rightarrow> beacon_which_board_t \<Rightarrow> world \<Rightarrow> u8 \<times> beacon_dev \<times> world" where
  "beacon_check_buffers d store_next which w =
     (let (r1, d1, w1) = append_read_register d which REG_STATUS (Rx_local 0) w;
          (r2, d2, w2) = buffer_send d1 which w1;
          result = mem w2 (Rx_local 0);
          bmask = fb3 result AND 0xf
      in (bmask,
          if store_next then d2\<lparr>hardware_next := drop_bit 4 (fb2 result) AND 0x3\<rparr> else d2,
          w2))"

subsection \<open>Raw write\<close>

text \<open>
  \<^verbatim>\<open>beacon_write\<close>. Its return expression parses as
  \<^verbatim>\<open>(written == d->fd[1]) ? 2 * BN_SPI_BYTES : (BN_SPI_BYTES ? 0 : -1)\<close>.
\<close>

definition beacon_write :: "beacon_dev \<Rightarrow> frame \<Rightarrow> world \<Rightarrow> int \<times> world" where
  "beacon_write d buffer w =
     (let (written0, w1) = do_write (fd d MASTER) buffer w;
          (written, w2) =
            (if fd d SLAVE \<noteq> 0
             then (let (x, w2) = do_write (fd d SLAVE) buffer w1 in (written0 + x, w2))
             else (written0, w1))
      in (if written = fd d SLAVE then 2 * BN_SPI_BYTES
          else if BN_SPI_BYTES \<noteq> 0 then 0 else -1,
          w2))"

text \<open>The number of bytes \<^verbatim>\<open>beacon_write\<close> has in \<^verbatim>\<open>written\<close> when it returns.\<close>

definition beacon_write_written :: "beacon_dev \<Rightarrow> world \<Rightarrow> int" where
  "beacon_write_written d w =
     (if fd d SLAVE \<noteq> 0 then write_ret w (n_write w) + write_ret w (Suc (n_write w))
      else write_ret w (n_write w))"

subsection \<open>The board-id counter\<close>

text \<open>
  The file-scope \<^verbatim>\<open>static int board_id_counter = 1\<close> is threaded through as a value.
  \<^verbatim>\<open>id\<close> is a \<^verbatim>\<open>uint8_t\<close>, promoted to \<^verbatim>\<open>int\<close> in the comparison and in \<^verbatim>\<open>id+1\<close>.
\<close>

definition board_id_counter_init :: int where
  "board_id_counter_init = 1"

definition beacon_set_board_id :: "beacon_dev \<Rightarrow> u8 \<Rightarrow> beacon_which_board_t \<Rightarrow> int \<Rightarrow> int \<times> beacon_dev" where
  "beacon_set_board_id d ident which board_id_counter =
     ((if uint ident \<le> board_id_counter then uint ident + 1 else board_id_counter),
      d\<lparr>board_id := (board_id d)(which := ident)\<rparr>)"

text \<open>The counter after a sequence of \<^verbatim>\<open>beacon_set_board_id\<close> calls on a handle.\<close>

fun set_board_ids :: "beacon_dev \<Rightarrow> (u8 \<times> beacon_which_board_t) list \<Rightarrow> int \<Rightarrow> int \<times> beacon_dev" where
  "set_board_ids d [] c = (c, d)"
| "set_board_ids d ((ident, which) # rest) c =
     (let (c1, d1) = beacon_set_board_id d ident which c in set_board_ids d1 rest c1)"

subsection \<open>Attenuators\<close>

text \<open>\<^verbatim>\<open>reverse_bits\<close>, the portable version: bit \<open>i\<close> of the input sets bit \<open>7 - i\<close>.\<close>

definition reverse_bits :: "u8 \<Rightarrow> u8" where
  "reverse_bits inp =
     fold (\<lambda>i out. if inp AND push_bit i 1 \<noteq> 0 then out OR push_bit (7 - i) 1 else out)
       [0 ..< 8] 0"

text \<open>
  \<^verbatim>\<open>reverse_buf_bits\<close> calls \<^verbatim>\<open>reverse_bits\<close> on bytes 3, 2 and 1 and drops the three
  results: it stores nothing back into the buffer.
\<close>

definition reverse_buf_bits :: "frame \<Rightarrow> frame" where
  "reverse_buf_bits b =
     (let r3 = reverse_bits (fb3 b); r2 = reverse_bits (fb2 b); r1 = reverse_bits (fb1 b)
      in b)"

text \<open>The three frames that carry eight attenuation values.\<close>

definition atten_frames :: "(nat \<Rightarrow> u8) \<Rightarrow> frame \<times> frame \<times> frame" where
  "atten_frames a =
     (reverse_buf_bits (Frame REG_ATTEN_012 (a 2) (a 1) (a 0)),
      reverse_buf_bits (Frame REG_ATTEN_345 (a 5) (a 4) (a 3)),
      reverse_buf_bits (Frame REG_ATTEN_67 0 (a 7) (a 6)))"

definition send_atten :: "beacon_dev \<Rightarrow> beacon_which_board_t \<Rightarrow> (nat \<Rightarrow> u8) \<Rightarrow> world \<Rightarrow> int \<times> beacon_dev \<times> world" where
  "send_atten d which a w =
     (let (attenuation_012, attenuation_345, attenuation_067) = atten_frames a;
          (r1, d1, w1) = buffer_append d which (Some attenuation_012) None w;
          (r2, d2, w2) = buffer_append d1 which (Some attenuation_345) None w1;
          (r3, d3, w3) = buffer_append d2 which (Some attenuation_067) None w2;
          (r4, d4, w4) = buffer_send d3 which w3
      in (r1 + r2 + r3 + r4, d4, w4))"

text \<open>\<^verbatim>\<open>beacon_set_attenuation\<close>; a null array pointer is \<open>None\<close>.\<close>

definition beacon_set_attenuation :: "beacon_dev \<Rightarrow> (nat \<Rightarrow> u8) option \<Rightarrow> (nat \<Rightarrow> u8) option \<Rightarrow> world \<Rightarrow> int \<times> beacon_dev \<times> world" where
  "beacon_set_attenuation d attenuation_master attenuation_slave w =
     (let (ra, d1, w1) =
            (case attenuation_master of None \<Rightarrow> (0, d, w)
             | Some a \<Rightarrow> send_atten d MASTER a w);
          (rb, d2, w2) =
            (case attenuation_slave of None \<Rightarrow> (0, d1, w1)
             | Some a \<Rightarrow> if fd d1 SLAVE \<noteq> 0 then send_atten d1 SLAVE a w1 else (0, d1, w1));
          (rc, d3, w3) = synchronized_command d2 buf_apply_attenuation 0 (Rx_local 0) (Rx_local 0) w2
      in (ra + rb + rc, d3, w3))"

text \<open>
  The read half shared by the two branches of \<^verbatim>\<open>beacon_get_attenuation\<close>: both queue the
  three register reads on the master, run \<^verbatim>\<open>reverse_buf_bits\<close> over what came back and, when
  nothing failed, copy bytes 3, 2, 1 into the caller's array.
\<close>

definition read_atten :: "beacon_dev \<Rightarrow> int \<Rightarrow> (nat \<Rightarrow> u8) \<Rightarrow> world \<Rightarrow> int \<times> (nat \<Rightarrow> u8) \<times> beacon_dev \<times> world" where
  "read_atten d ret0 out w =
     (let (r1, d1, w1) = append_read_register d MASTER REG_ATTEN_012 (Rx_local 0) w;
          (r2, d2, w2) = append_read_register d1 MASTER REG_ATTEN_345 (Rx_local 1) w1;
          (r3, d3, w3) = append_read_register d2 MASTER REG_ATTEN_67 (Rx_local 2) w2;
          (r4, d4, w4) = buffer_send d3 MASTER w3;
          ret = ret0 + r1 + r2 + r3 + r4;
          attenuation_012 = reverse_buf_bits (mem w4 (Rx_local 0));
          attenuation_345 = reverse_buf_bits (mem w4 (Rx_local 1));
          attenuation_067 = reverse_buf_bits (mem w4 (Rx_local 2))
      in (ret,
          if ret = 0 then
            out(0 := fb3 attenuation_012, 1 := fb2 attenuation_012, 2 := fb1 attenuation_012,
                3 := fb3 attenuation_345, 4 := fb2 attenuation_345, 5 := fb1 attenuation_345,
                6 := fb3 attenuation_067, 7 := fb2 attenuation_067)
          else out,
          d4, w4))"

definition beacon_get_attenuation :: "beacon_dev \<Rightarrow> (nat \<Rightarrow> u8) option \<Rightarrow> (nat \<Rightarrow> u8) option \<Rightarrow> world \<Rightarrow> int \<times> (nat \<Rightarrow> u8) option \<times> (nat \<Rightarrow> u8) option \<times> beacon_dev \<times> world" where
  "beacon_get_attenuation d attenuation_master attenuation_slave w =
     (let (ret1, am, d1, w1) =
            (case attenuation_master of None \<Rightarrow> (0, None, d, w)
             | Some a \<Rightarrow> (let (r, a', d', w') = read_atten d 0 a w in (r, Some a', d', w')));
          (ret2, as, d2, w2) =
            (case attenuation_slave of None \<Rightarrow> (ret1, None, d1, w1)
             | Some a \<Rightarrow>
                 if ret1 = 0 \<and> fd d1 SLAVE \<noteq> 0
                 then (let (r, a', d', w') = read_atten d1 ret1 a w1 in (r, Some a', d', w'))
                 else (ret1, Some a, d1, w1))
      in (ret2, am, as, d2, w2))"


subsection \<open>Event readout\<close>

text \<open>
  Modelled from the spec: \<^verbatim>\<open>beacon_header_t\<close> is declared in \<^verbatim>\<open>beacondaq.h\<close>, which is not under
  src/. The record has the members \<^verbatim>\<open>beacon_read_multiple_ptr\<close> assigns (the event header of
  the specification), each prefixed with \<open>hd_\<close>, at the widths the assignments suggest. The
  two members of the approximate trigger time are left out: they are computed in double
  precision and no property below reads them. The payload \<^verbatim>\<open>beacon_event_t\<close> is not tracked:
  the transfers that fetch it are queued and sent like all others, so they count toward
  the 511-entry bound and consume ioctl results, and what they receive lands in \<open>mem\<close>.
\<close>

record beacon_header_t =
  hd_event_number :: u64
  hd_trig_number :: u64
  hd_buffer_length :: u16
  hd_pretrigger_samples :: u32
  hd_readout_time :: "beacon_which_board_t \<Rightarrow> int"
  hd_readout_time_ns :: "beacon_which_board_t \<Rightarrow> int"
  hd_trig_time :: "beacon_which_board_t \<Rightarrow> u64"
  hd_triggered_beams :: u32
  hd_beam_mask :: u32
  hd_beam_power :: u32
  hd_pps_counter :: u32
  hd_dynamic_beam_mask :: u32
  hd_veto_deadtime_counter :: u32
  hd_deadtime :: "beacon_which_board_t \<Rightarrow> u32"
  hd_buffer_number :: u8
  hd_channel_mask :: u8
  hd_channel_read_mask :: "beacon_which_board_t \<Rightarrow> u8"
  hd_gate_flag :: u8
  hd_buffer_mask :: u8
  hd_board_id :: "beacon_which_board_t \<Rightarrow> u8"
  hd_trig_type :: u8
  hd_calpulser :: u8
  hd_trig_pol :: u8
  hd_sync_problem :: u8

text \<open>
  \<^verbatim>\<open>be32toh\<close> of the 32-bit object that received a frame: byte 0 of the frame is the most
  significant byte. (The 64-bit locals receive the frame in their first four bytes and are
  passed through \<^verbatim>\<open>be32toh\<close>, which takes their low 32 bits: on the little-endian host the
  driver runs on these are the four bytes received.)
\<close>

definition be32toh :: "frame \<Rightarrow> u32" where
  "be32toh f =
     push_bit 24 (ucast (fb0 f)) OR push_bit 16 (ucast (fb1 f)) OR push_bit 8 (ucast (fb2 f))
       OR ucast (fb3 f)"

text \<open>\<^verbatim>\<open>__builtin_popcount\<close> and \<^verbatim>\<open>__builtin_ctz\<close> on a buffer mask. The count of trailing
  zeros of 0 is undefined in C; the readout never asks for it, since an empty mask runs the
  loop zero times.\<close>

definition popcount :: "u8 \<Rightarrow> nat" where
  "popcount m = length (filter (bit m) [0 ..< 8])"

definition ctz :: "u8 \<Rightarrow> nat" where
  "ctz m = length (takeWhile (\<lambda>i. \<not> bit m i) [0 ..< 8])"

text \<open>A run of \<^verbatim>\<open>CHK(append_read_register(...))\<close> lines: the first failure ends it.\<close>

fun chk_read_registers :: "beacon_dev \<Rightarrow> beacon_which_board_t \<Rightarrow> (u8 \<times> rx_dst) list \<Rightarrow> world \<Rightarrow> int \<times> beacon_dev \<times> world" where
  "chk_read_registers d ibd [] w = (0, d, w)"
| "chk_read_registers d ibd ((address, result) # rest) w =
     (let (r, d1, w1) = append_read_register d ibd address result w in
      if r \<noteq> 0 then (r, d1, w1) else chk_read_registers d1 ibd rest w1)"

text \<open>The registers harvested for one buffer of one board, in the order of the source.\<close>

definition metadata_regs :: "nat \<Rightarrow> beacon_which_board_t \<Rightarrow> (u8 \<times> rx_dst) list" where
  "metadata_regs iout ibd =
     [(REG_EVENT_COUNTER_LOW, Rx_event_counter 0), (REG_EVENT_COUNTER_HIGH, Rx_event_counter 1),
      (REG_TRIG_COUNTER_LOW, Rx_trig_counter 0), (REG_TRIG_COUNTER_HIGH, Rx_trig_counter 1),
      (REG_TRIG_TIME_LOW, Rx_trig_time 0), (REG_TRIG_TIME_HIGH, Rx_trig_time 1),
      (REG_DEADTIME, Rx_deadtime), (REG_TRIG_INFO, Rx_tinfo)]
     @ (if ibd = MASTER then
          [(REG_CH_MASKS, Rx_tmask), (REG_USER_MASK, Rx_hd_beam_mask iout),
           (REG_LAST_BEAM, Rx_last_beam), (REG_TRIG_BEAM_POWER, Rx_hd_beam_power iout),
           (REG_PPS_COUNTER, Rx_hd_pps_counter iout),
           (REG_HD_DYN_MASK, Rx_hd_dynamic_beam_mask iout),
           (REG_VETO_DEADTIME_CTR, Rx_hd_veto_deadtime_counter iout)]
        else [])"

text \<open>The hardware buffer index: bits 22 and 23 of the trigger-info word.\<close>

definition hwbuf_of :: "u32 \<Rightarrow> u8" where
  "hwbuf_of tinfo = ucast (drop_bit 22 tinfo AND 0x3)"

text \<open>A 48-bit quantity from its low and high 24-bit registers.\<close>

definition big48 :: "frame \<Rightarrow> frame \<Rightarrow> u64" where
  "big48 lo hi =
     ucast (be32toh lo AND 0xffffff) + push_bit 24 (ucast (be32toh hi AND 0xffffff))"

text \<open>
  Parsing the harvested registers into the header (from \<^verbatim>\<open>// check the event counter\<close> to
  the end of the master and slave branches). A mismatch of the event counter is only
  printed. \<^verbatim>\<open>abs\<close> takes an \<^verbatim>\<open>int\<close>: the 64-bit difference is cut to 32 bits and read as
  signed.
\<close>

definition fill_header :: "beacon_dev \<Rightarrow> u8 \<Rightarrow> nat \<Rightarrow> nat \<Rightarrow> beacon_which_board_t \<Rightarrow> timespec \<Rightarrow> (rx_dst \<Rightarrow> frame) \<Rightarrow> beacon_header_t \<Rightarrow> beacon_header_t" where
  "fill_header d bmask ibuf iout ibd now m h =
     (let big_event_counter = big48 (m (Rx_event_counter 0)) (m (Rx_event_counter 1));
          trig_number = big48 (m (Rx_trig_counter 0)) (m (Rx_trig_counter 1));
          tinfo = be32toh (m Rx_tinfo);
          tmask = be32toh (m Rx_tmask);
          last_beam = be32toh (m Rx_last_beam);
          hwbuf = hwbuf_of tinfo;
          h1 = (if unat hwbuf \<noteq> ibuf then h\<lparr>hd_sync_problem := hd_sync_problem h OR 1\<rparr> else h);
          h2 = h1\<lparr>hd_readout_time := (hd_readout_time h1)(ibd := tv_sec now),
                  hd_readout_time_ns := (hd_readout_time_ns h1)(ibd := tv_nsec now),
                  hd_trig_time := (hd_trig_time h1)
                     (ibd := big48 (m (Rx_trig_time 0)) (m (Rx_trig_time 1))),
                  hd_channel_read_mask := (hd_channel_read_mask h1)(ibd := channel_read_mask d ibd),
                  hd_deadtime := (hd_deadtime h1)(ibd := be32toh (m Rx_deadtime) AND 0xffffff),
                  hd_board_id := (hd_board_id h1)(ibd := board_id d ibd)\<rparr>
      in if ibd = MASTER then
           h2\<lparr>hd_event_number := readout_number_offset d + big_event_counter,
              hd_trig_number := trig_number,
              hd_buffer_length := buffer_length d,
              hd_pretrigger_samples := of_nat (unat (pretrigger d) * 8 * 16),
              hd_triggered_beams := last_beam AND 0xffffff,
              hd_beam_mask := be32toh (m (Rx_hd_beam_mask iout)) AND 0xffffff,
              hd_beam_power := be32toh (m (Rx_hd_beam_power iout)) AND 0xffffff,
              hd_pps_counter := be32toh (m (Rx_hd_pps_counter iout)) AND 0xffffff,
              hd_dynamic_beam_mask := be32toh (m (Rx_hd_dynamic_beam_mask iout)) AND 0xffffff,
              hd_veto_deadtime_counter :=
                be32toh (m (Rx_hd_veto_deadtime_counter iout)) AND 0xffffff,
              hd_buffer_number := hwbuf,
              hd_gate_flag := ucast (drop_bit 23 tmask AND 1),
              hd_buffer_mask := bmask,
              hd_trig_type := ucast (drop_bit 15 tinfo AND 0x3),
              hd_calpulser := ucast (drop_bit 21 tinfo AND 0x1),
              hd_channel_mask := ucast (drop_bit 15 tmask AND 0xff),
              hd_trig_pol := ucast (tinfo AND 0xf)\<rparr>
         else if BN_MAX_BOARDS > 1 then
           (let h3 = (if hd_trig_number h2 \<noteq> trig_number
                      then h2\<lparr>hd_sync_problem := hd_sync_problem h2 OR 2\<rparr> else h2);
                h4 = (if \<bar>sint (ucast (hd_trig_time h3 ibd - hd_trig_time h3 MASTER) :: u32)\<bar> > 2
                      then h3\<lparr>hd_sync_problem := hd_sync_problem h3 OR 4\<rparr> else h3)
            in if hwbuf \<noteq> hd_buffer_number h4
               then h4\<lparr>hd_sync_problem := hd_sync_problem h4 OR 8\<rparr> else h4)
         else h2)"

text \<open>
  The channel loop of one board: a masked-in channel switches to waveform mode and to the
  buffer if the cached state differs, selects the channel and queues the waveform reads
  starting at RAM address 1; a masked-out channel is zero-filled in the payload. (The
  source tests the mask bit a second time inside the branch; there it is always set.)
\<close>

fun chan_loop :: "beacon_dev \<Rightarrow> beacon_which_board_t \<Rightarrow> nat \<Rightarrow> nat \<Rightarrow> nat list \<Rightarrow> world \<Rightarrow> int \<times> beacon_dev \<times> world" where
  "chan_loop d ibd ibuf iout [] w = (0, d, w)"
| "chan_loop d ibd ibuf iout (ichan # rest) w =
     (if channel_read_mask d ibd AND push_bit ichan 1 \<noteq> 0 then
        (let (r1, d1, w1) =
               (if current_mode d ibd \<noteq> MODE_WAVEFORMS then
                  (let (r, d', w') = buffer_append d ibd (Some (buf_mode (nat MODE_WAVEFORMS))) None w
                   in if r \<noteq> 0 then (r, d', w')
                      else (0, d'\<lparr>current_mode := (current_mode d')(ibd := MODE_WAVEFORMS)\<rparr>, w'))
                else (0, d, w))
         in if r1 \<noteq> 0 then (r1, d1, w1)
            else
              let (r2, d2, w2) =
                    (if current_buf d1 ibd \<noteq> int ibuf
                     then buffer_append d1 ibd (Some (buf_buffer ibuf)) None w1
                     else (0, d1, w1))
              in if r2 \<noteq> 0 then (r2, d2, w2)
                 else
                   let (r3, d3, w3) = buffer_append d2 ibd (Some (buf_channel ichan)) None w2
                   in if r3 \<noteq> 0 then (r3, d3, w3)
                      else
                        let (r4, d4, w4) =
                              loop_over_chunks_half_duplex d3 ibd
                                (unat (buffer_length d3) div (nat BN_SPI_BYTES * BN_NUM_CHUNK)) 1
                                (Rx_data iout ibd ichan) w3
                        in if r4 \<noteq> 0 then (r4, d4, w4)
                           else chan_loop d4 ibd ibuf iout rest w4)
      else chan_loop d ibd ibuf iout rest w)"

text \<open>How the body of the board loop ends: it falls through to the next board, it leaves
  the loop with \<^verbatim>\<open>break\<close>, or a \<^verbatim>\<open>CHK\<close> jumps to \<^verbatim>\<open>the_end\<close>.\<close>

datatype loop_exit = Next_board | Break | The_end

text \<open>The header members that make no sense without a slave are zeroed.\<close>

definition zero_slave_fields :: "beacon_header_t \<Rightarrow> beacon_header_t" where
  "zero_slave_fields h =
     h\<lparr>hd_readout_time := (hd_readout_time h)(SLAVE := 0),
       hd_readout_time_ns := (hd_readout_time_ns h)(SLAVE := 0),
       hd_trig_time := (hd_trig_time h)(SLAVE := 0),
       hd_deadtime := (hd_deadtime h)(SLAVE := 0),
       hd_board_id := (hd_board_id h)(SLAVE := 0)\<rparr>"

text \<open>
  The first half of the body of \<^verbatim>\<open>for (ibd = 0; ibd < NBD(d); ibd++)\<close>, from \<^verbatim>\<open>USING(d)\<close> to
  the flush of the metadata: for the master the event counter and the read cursor are
  advanced first, before anything is queued; then the buffer is selected, the registers
  are queued and the list is flushed. Each step is under \<^verbatim>\<open>CHK\<close>, so the first that
  fails ends it with a non-zero result.
\<close>

definition harvest_metadata :: "beacon_dev \<Rightarrow> nat \<Rightarrow> nat \<Rightarrow> beacon_which_board_t \<Rightarrow> world \<Rightarrow> int \<times> beacon_dev \<times> world" where
  "harvest_metadata d ibuf iout ibd w =
     (let d0 = (if ibd = MASTER
                then d\<lparr>event_counter := event_counter d + 1,
                       next_read_buffer :=
                         of_nat ((unat (next_read_buffer d) + 1) mod BN_NUM_BUFFER)\<rparr>
                else d);
          (r1, d1, w1) = buffer_append d0 ibd (Some (buf_buffer ibuf)) None w
      in if r1 \<noteq> 0 then (r1, d1, w1)
         else
           let d2 = d1\<lparr>current_buf := (current_buf d1)(ibd := int ibuf)\<rparr>;
               (r3, d3, w3) = chk_read_registers d2 ibd (metadata_regs iout ibd) w1
           in if r3 \<noteq> 0 then (r3, d3, w3)
              else buffer_send d3 ibd w3)"

text \<open>
  The whole body for the buffer \<open>ibuf\<close>: the check that the cursor's buffer is in the mask,
  the time stamp, the metadata, the header, the channels, the zeroing of the slave's
  header members and the last flush.
\<close>

definition read_board :: "beacon_dev \<Rightarrow> u8 \<Rightarrow> nat \<Rightarrow> nat \<Rightarrow> beacon_which_board_t \<Rightarrow> beacon_header_t \<Rightarrow> world \<Rightarrow> loop_exit \<times> nat \<times> beacon_dev \<times> beacon_header_t \<times> world" where
  "read_board d bmask ibuf iout ibd h w =
     (if bmask AND push_bit ibuf 1 = 0 then
        (Break, ctz bmask, d\<lparr>next_read_buffer := of_nat (ctz bmask)\<rparr>, h, w)
      else
        let (now, w0) = clock_gettime CLOCK_REALTIME w;
            (r4, d4, w4) = harvest_metadata d ibuf iout ibd w0
        in if r4 \<noteq> 0 then (The_end, ibuf, d4, h, w4)
           else
             let h5 = fill_header d4 bmask ibuf iout ibd now (mem w4) h;
                 (r6, d6, w6) = chan_loop d4 ibd ibuf iout [0 ..< BN_NUM_CHAN] w4
             in if r6 \<noteq> 0 then (The_end, ibuf, d6, h5, w6)
                else
                  let h7 = (if NBD d6 < BN_MAX_BOARDS then zero_slave_fields h5 else h5);
                      (r8, d8, w8) = buffer_send d6 ibd w6
                  in if r8 \<noteq> 0 then (The_end, ibuf, d8, h7, w8)
                     else (Next_board, ibuf, d8, h7, w8))"

fun board_loop :: "beacon_dev \<Rightarrow> u8 \<Rightarrow> nat \<Rightarrow> nat \<Rightarrow> beacon_which_board_t list \<Rightarrow> beacon_header_t \<Rightarrow> world \<Rightarrow> loop_exit \<times> nat \<times> beacon_dev \<times> beacon_header_t \<times> world" where
  "board_loop d bmask ibuf iout [] h w = (Next_board, ibuf, d, h, w)"
| "board_loop d bmask ibuf iout (ibd # rest) h w =
     (case read_board d bmask ibuf iout ibd h w of
        (Next_board, ibuf1, d1, h1, w1) \<Rightarrow> board_loop d1 bmask ibuf1 iout rest h1 w1
      | (Break, ibuf1, d1, h1, w1) \<Rightarrow> (Next_board, ibuf1, d1, h1, w1)
      | (The_end, ibuf1, d1, h1, w1) \<Rightarrow> (The_end, ibuf1, d1, h1, w1))"

text \<open>
  One pass of the outer loop: the buffer under the cursor, its boards, then the release of
  the buffer, whose result is ignored. The flag is \<open>False\<close> after a jump to \<^verbatim>\<open>the_end\<close>.
\<close>

definition read_buffer :: "beacon_dev \<Rightarrow> u8 \<Rightarrow> nat \<Rightarrow> beacon_header_t \<Rightarrow> world \<Rightarrow> bool \<times> beacon_dev \<times> beacon_header_t \<times> world" where
  "read_buffer d bmask iout h w =
     (case board_loop d bmask (unat (next_read_buffer d)) iout (board_range (NBD d))
             (h\<lparr>hd_sync_problem := 0\<rparr>) w of
        (The_end, ibuf1, d1, h1, w1) \<Rightarrow> (False, d1, h1, w1)
      | (_, ibuf1, d1, h1, w1) \<Rightarrow>
          (let (r, d2, w2) = mark_buffers_done d1 (push_bit ibuf1 1) w1 in (True, d2, h1, w2)))"

fun read_loop :: "nat \<Rightarrow> beacon_dev \<Rightarrow> u8 \<Rightarrow> nat \<Rightarrow> (nat \<Rightarrow> beacon_header_t) \<Rightarrow> world \<Rightarrow> int \<times> beacon_dev \<times> (nat \<Rightarrow> beacon_header_t) \<times> world" where
  "read_loop 0 d bmask iout hds w = (0, d, hds, w)"
| "read_loop (Suc n) d bmask iout hds w =
     (case read_buffer d bmask iout (hds iout) w of
        (False, d1, h1, w1) \<Rightarrow> (1, d1, hds(iout := h1), w1)
      | (True, d1, h1, w1) \<Rightarrow> read_loop n d1 bmask (Suc iout) (hds(iout := h1)) w1)"

text \<open>\<^verbatim>\<open>beacon_read_multiple_ptr\<close>: \<open>hds i\<close> is the header \<^verbatim>\<open>hd[i]\<close> points to.\<close>

definition beacon_read_multiple_ptr :: "beacon_dev \<Rightarrow> u8 \<Rightarrow> (nat \<Rightarrow> beacon_header_t) \<Rightarrow> world \<Rightarrow> int \<times> beacon_dev \<times> (nat \<Rightarrow> beacon_header_t) \<times> world" where
  "beacon_read_multiple_ptr d bmask hds w = read_loop (popcount bmask) d bmask 0 hds w"

subsection \<open>Waiting for a buffer\<close>

text \<open>
  The elapsed time the poll loop of \<^verbatim>\<open>beacon_wait\<close> computes from the time stamp taken at
  loop entry and the one taken after a poll:
  \<^verbatim>\<open>(now.tv_sec - start.tv_nsec) * 1e-9f * (now.tv_nsec - start.tv_nsec)\<close>. The C value is
  a \<^verbatim>\<open>float\<close>; the model computes the same expression over the reals, without the
  rounding of single precision.
\<close>

definition waited_after :: "timespec \<Rightarrow> timespec \<Rightarrow> real" where
  "waited_after start now =
     of_int (tv_sec now - tv_nsec start) * (1 / 1000000000) * of_int (tv_nsec now - tv_nsec start)"

text \<open>
  The poll loop. It may run forever, so it takes fuel: \<open>None\<close> means the loop was still
  running when the fuel ran out. The cancel flag is volatile: before the loop reads it, a
  cancellation that another thread has made by this poll is written into it.
\<close>

fun wait_loop :: "nat \<Rightarrow> beacon_dev \<Rightarrow> real \<Rightarrow> timespec \<Rightarrow> real \<Rightarrow> u8 \<Rightarrow> beacon_which_board_t \<Rightarrow> world \<Rightarrow> (u8 \<times> beacon_dev \<times> world) option" where
  "wait_loop 0 d timeout start waited something which w =
     (if something = 0 \<and> (timeout \<le> 0 \<or> waited < timeout) then None
      else Some (something, d, w))"
| "wait_loop (Suc fuel) d timeout start waited something which w =
     (if something = 0 \<and> (timeout \<le> 0 \<or> waited < timeout) then
        (let (something1, d1, w1) = beacon_check_buffers d True which w;
             d2 = (if cancel_by w1 (n_poll w1) then d1\<lparr>cancel_wait := 1\<rparr> else d1);
             w2 = w1\<lparr>n_poll := Suc (n_poll w1)\<rparr>
         in if cancel_wait d2 \<noteq> 0 then Some (something1, d2, w2)
            else if something1 = 0 then
              (let w3 = w2\<lparr>sched_log := sched_log w2 @
                            [if poll_interval d2 \<noteq> 0 then Usleep (unat (poll_interval d2))
                             else Sched_yield]\<rparr>
               in if timeout > 0 then
                    (let (now, w4) = clock_gettime CLOCK_REALTIME w3
                     in wait_loop fuel d2 timeout start (waited_after start now) something1 which w4)
                  else wait_loop fuel d2 timeout start waited something1 which w3)
            else wait_loop fuel d2 timeout start waited something1 which w2)
      else Some (something, d, w))"

text \<open>
  \<^verbatim>\<open>beacon_wait\<close>: the result is the return value and what is stored through
  \<^verbatim>\<open>ready_buffers\<close> (nothing on the two early returns). \<open>start\<close> is read from the monotonic
  clock, and only for a positive timeout.
\<close>

definition beacon_wait :: "nat \<Rightarrow> beacon_dev \<Rightarrow> real \<Rightarrow> beacon_which_board_t \<Rightarrow> world \<Rightarrow> (int \<times> u8 option \<times> beacon_dev \<times> world) option" where
  "beacon_wait fuel d timeout which w =
     (if enable_locking d \<noteq> 0 \<and> wait_mut_locked d then Some (EBUSY, None, d, w)
      else
        let d0 = (if enable_locking d \<noteq> 0 then d\<lparr>wait_mut_locked := True\<rparr> else d) in
        if cancel_wait d0 \<noteq> 0 then
          Some (EAGAIN, None,
                (if enable_locking d0 \<noteq> 0 then d0\<lparr>cancel_wait := 0, wait_mut_locked := False\<rparr>
                 else d0\<lparr>cancel_wait := 0\<rparr>), w)
        else
          let (start, w0) =
                (if timeout > 0 then clock_gettime CLOCK_MONOTONIC w
                 else (\<lparr>tv_sec = 0, tv_nsec = 0\<rparr>, w))
          in case wait_loop fuel d0 timeout start 0 0 which w0 of
               None \<Rightarrow> None
             | Some (something, d1, w1) \<Rightarrow>
                 (let interrupted = cancel_wait d1;
                      d2 = d1\<lparr>cancel_wait := 0\<rparr>;
                      d3 = (if enable_locking d2 \<noteq> 0 then d2\<lparr>wait_mut_locked := False\<rparr> else d2)
                  in Some (if interrupted \<noteq> 0 then EINTR else 0, Some something, d3, w1)))"

subsection \<open>Reset of the counters\<close>

text \<open>C integer division: the quotient is truncated toward zero.\<close>

definition c_div :: "int \<Rightarrow> int \<Rightarrow> int" where
  "c_div a b = (if (a < 0) = (b < 0) then \<bar>a\<bar> div \<bar>b\<bar> else - (\<bar>a\<bar> div \<bar>b\<bar>))"

text \<open>\<^verbatim>\<open>avg_time\<close>; \<^verbatim>\<open>tmp_sum\<close> is a \<^verbatim>\<open>uint32_t\<close>.\<close>

definition avg_time :: "timespec \<Rightarrow> timespec \<Rightarrow> timespec" where
  "avg_time A B =
     (let nsec0 = c_div (tv_nsec A + tv_nsec B) 2;
          tmp_sum = (tv_sec A + tv_sec B) mod 2 ^ 32;
          sec0 = tmp_sum div 2;
          nsec1 = (if tmp_sum mod 2 = 1 then nsec0 + 500000000 else nsec0)
      in if nsec1 > 1000000000 then \<lparr>tv_sec = sec0 + 1, tv_nsec = nsec1 - 1000000000\<rparr>
         else \<lparr>tv_sec = sec0, tv_nsec = nsec1\<rparr>)"

text \<open>\<^verbatim>\<open>beacon_phased_trigger_readout\<close>: the results of the writes are not looked at.\<close>

definition beacon_phased_trigger_readout :: "beacon_dev \<Rightarrow> int \<Rightarrow> world \<Rightarrow> int \<times> world" where
  "beacon_phased_trigger_readout d phased w =
     (let trigger_buf = Frame REG_PHASED_TRIGGER 0 0 (word_of_int phased AND 1);
          w1 = (if fd d SLAVE \<noteq> 0 then snd (do_write (fd d SLAVE) trigger_buf w) else w);
          w2 = snd (do_write (fd d MASTER) trigger_buf w1)
      in (0, w2))"

text \<open>Clearing all buffers of each board; \<open>False\<close> when a board took fewer bytes.\<close>

fun clear_all_buffers :: "beacon_dev \<Rightarrow> beacon_which_board_t list \<Rightarrow> world \<Rightarrow> bool \<times> world" where
  "clear_all_buffers d [] w = (True, w)"
| "clear_all_buffers d (ibd # rest) w =
     (let (wrote1, w1) = do_write (fd d ibd) (buf_clear 0xf) w;
          (wrote2, w2) = do_write (fd d ibd) buf_reset_buf w1
      in if wrote1 + wrote2 \<noteq> 2 * BN_SPI_BYTES then (False, w2)
         else clear_all_buffers d rest w2)"

text \<open>
  \<^verbatim>\<open>beacon_reset\<close> for \<^verbatim>\<open>reset_type == BN_RESET_COUNTERS\<close>, the call \<^verbatim>\<open>beacon_open\<close> makes:
  the two global resets and the calibration are guarded by \<^verbatim>\<open>reset_type\<close> and are not entered
  for this value. What remains: phased-trigger readout off, all buffers cleared, the
  cursor reset, free-running time stamps, and the counter reset between two readings of
  the wall clock.
\<close>

definition beacon_reset_counters :: "beacon_dev \<Rightarrow> world \<Rightarrow> int \<times> beacon_dev \<times> world" where
  "beacon_reset_counters d w =
     (let (r0, w0) = beacon_phased_trigger_readout d 0 w in
      if r0 \<noteq> 0 then (1, d, w0)
      else
        case clear_all_buffers d (board_range (NBD d)) w0 of
          (False, w1) \<Rightarrow> (1, d, w1)
        | (True, w1) \<Rightarrow>
            (let d1 = d\<lparr>next_read_buffer := 0\<rparr>;
                 w2 = fold (\<lambda>ibd w. snd (do_write (fd d1 ibd) (Frame REG_TIMESTAMP_SELECT 0 0 1) w))
                        (board_range (NBD d1)) w1;
                 (tbefore, w3) = clock_gettime CLOCK_REALTIME w2
             in if NBD d1 > 1 then
                  (let (r, d4, w4) =
                         synchronized_command d1 buf_reset_counter 0 (Rx_local 0) (Rx_local 0) w3
                   in if r \<noteq> 0 then (1, d4, w4)
                      else
                        let (tafter, w5) = clock_gettime CLOCK_REALTIME w4
                        in (0, d4\<lparr>start_time := avg_time tbefore tafter\<rparr>, w5))
                else
                  (let (wrote, w4) = do_write (fd d1 MASTER) buf_reset_counter w3;
                       (tafter, w5) = clock_gettime CLOCK_REALTIME w4
                   in if wrote \<noteq> BN_SPI_BYTES then (1, d1, w5)
                      else (0, d1\<lparr>start_time := avg_time tbefore tafter\<rparr>, w5))))"

subsection \<open>Opening the device\<close>

text \<open>The handle after \<^verbatim>\<open>memset(dev,0,sizeof(*dev))\<close>.\<close>

definition zero_dev :: beacon_dev where
  "zero_dev =
     \<lparr>fd = (\<lambda>_. 0), enable_locking = 0, readout_number_offset = 0, event_counter = 0,
      buffer_length = 0, wait_mut_locked = False, board_id = (\<lambda>_. 0),
      channel_read_mask = (\<lambda>_. 0), cancel_wait = 0,
      start_time = \<lparr>tv_sec = 0, tv_nsec = 0\<rparr>, next_read_buffer = 0, hardware_next = 0,
      poll_interval = 0, spi_clock = 0, cs_change = 0, delay_us = 0, pretrigger = 0,
      buf = (\<lambda>_ _. \<lparr>tx_buf = None, rx_buf = None\<rparr>), nused = (\<lambda>_. 0),
      current_buf = (\<lambda>_. 0), current_mode = (\<lambda>_. 0)\<rparr>"

text \<open>
  What the system calls of \<^verbatim>\<open>beacon_open\<close> return: \<^verbatim>\<open>open\<close> and \<^verbatim>\<open>flock\<close> for each device
  node, \<^verbatim>\<open>time(0)\<close>, and the content of the block \<^verbatim>\<open>malloc\<close> hands out. The GPIO pin and the
  two SPI configuration ioctls, whose results the driver ignores, are outside the model.
\<close>

record open_calls =
  open_ret :: "beacon_which_board_t \<Rightarrow> int"
  flock_ret :: "beacon_which_board_t \<Rightarrow> int"
  time_ret :: u64
  malloc_ret :: beacon_dev

definition SPI_CLOCK :: int where "SPI_CLOCK = 20000000"

text \<open>\<^verbatim>\<open>memset(dev,0,sizeof(*dev))\<close>: whatever the block held, every member is zero after.\<close>

definition memset_zero :: "beacon_dev \<Rightarrow> beacon_dev" where
  "memset_zero dev = zero_dev"

text \<open>The part of \<^verbatim>\<open>beacon_close\<close> that reaches the boards: the pending lists are flushed.\<close>

definition beacon_close :: "beacon_dev \<Rightarrow> world \<Rightarrow> world" where
  "beacon_close d w =
     fold (\<lambda>ibd w. snd (snd (buffer_send (d\<lparr>cancel_wait := 1\<rparr>) ibd w))) (board_range (NBD d)) w"

text \<open>
  \<^verbatim>\<open>beacon_open\<close>: \<open>have_slave\<close> says whether a slave device name is given, \<open>counter\<close> is the
  process-wide board-id counter. The result is the handle, or \<open>None\<close> for the null pointer,
  with the counter and the world after the call. The statements are in the order of the
  source: the poll interval is assigned, then the block is zeroed, then the other members
  are set.
\<close>

definition beacon_open :: "open_calls \<Rightarrow> bool \<Rightarrow> int \<Rightarrow> int \<Rightarrow> world \<Rightarrow> beacon_dev option \<times> int \<times> world" where
  "beacon_open sys have_slave locking counter w =
     (if open_ret sys MASTER < 0 then (None, counter, w)
      else if flock_ret sys MASTER < 0 then (None, counter, w)
      else if have_slave \<and> open_ret sys SLAVE < 0 then (None, counter, w)
      else if have_slave \<and> flock_ret sys SLAVE < 0 then (None, counter, w)
      else
        let fd0 = open_ret sys MASTER;
            fd1 = (if have_slave then open_ret sys SLAVE else 0);
            w1 = (if fd1 \<noteq> 0 then snd (do_write fd0 buf_sync_off w) else w);
            dev1 = (malloc_ret sys)\<lparr>poll_interval := 500\<rparr>;
            dev2 = memset_zero dev1;
            dev3 = dev2\<lparr>fd := (fd dev2)(MASTER := fd0, SLAVE := fd1),
                       spi_clock := SPI_CLOCK, cancel_wait := 0, event_counter := 0,
                       next_read_buffer := 0, cs_change := 0, delay_us := 0,
                       current_buf := (\<lambda>_. -1), current_mode := (\<lambda>_. -1)\<rparr>;
            dev4 = dev3\<lparr>readout_number_offset := push_bit 32 (time_ret sys),
                       buffer_length := 624,
                       channel_read_mask :=
                         (channel_read_mask dev3)(MASTER := 0xff, SLAVE := if fd1 \<noteq> 0 then 0xf else 0),
                       board_id :=
                         (board_id dev3)(MASTER := word_of_int counter,
                                         SLAVE := if fd1 \<noteq> 0 then word_of_int (counter + 1) else 0)\<rparr>;
            counter1 = (if fd1 \<noteq> 0 then counter + 2 else counter + 1);
            dev5 = dev4\<lparr>enable_locking := locking, nused := (\<lambda>_. 0)\<rparr>;
            (r6, dev6, w6) = beacon_read_register dev5 REG_FIRMWARE_VER (Rx_local 0) MASTER w1;
            (r7, dev7, w7) =
              (if fd1 \<noteq> 0 then beacon_read_register dev6 REG_FIRMWARE_VER (Rx_local 0) SLAVE w6
               else (0, dev6, w6));
            (r8, dev8, w8) = beacon_reset_counters dev7 w7
        in if r8 \<noteq> 0 then (None, counter1, beacon_close dev8 w8)
           else (Some dev8, counter1, w8))"

subsection \<open>ADC alignment: from the calibration event to the delay registers\<close>

text \<open>
  One pass of the alignment loop of \<^verbatim>\<open>beacon_reset\<close> after the calibration event has been
  read: the search for the peak of each enabled channel, the two sanity checks, and the
  writes of the per-ADC delays. \<open>data ibd ichan isamp\<close> is the sample
  \<^verbatim>\<open>d->calib_ev.data[ibd][ichan][isamp]\<close>. The constant \<^verbatim>\<open>BN_MAX_WAVEFORM_LENGTH\<close> is declared
  in the header that is not under src/ and is the parameter \<open>wlen\<close>.
\<close>

text \<open>The peak of one channel: the largest sample and the index where it first occurs;
  index 0 when every sample is 0.\<close>

definition find_peak :: "nat \<Rightarrow> (nat \<Rightarrow> u8) \<Rightarrow> u8 \<times> u16" where
  "find_peak wlen samples =
     fold (\<lambda>isamp (max_v, mi). if samples isamp > max_v then (samples isamp, of_nat isamp)
                                else (max_v, mi))
       [0 ..< wlen] (0, 0)"

record peaks =
  min_max_i :: u16
  max_max_i :: u16
  min_max_v :: u8
  max_i :: "beacon_which_board_t \<Rightarrow> nat \<Rightarrow> u16"

definition scan_channel :: "nat \<Rightarrow> beacon_dev \<Rightarrow> (beacon_which_board_t \<Rightarrow> nat \<Rightarrow> nat \<Rightarrow> u8) \<Rightarrow> beacon_which_board_t \<Rightarrow> nat \<Rightarrow> peaks \<Rightarrow> peaks" where
  "scan_channel wlen d data ibd ichan p =
     (if push_bit ichan 1 AND channel_read_mask d ibd = 0 then p
      else
        let (max_v, mi) = find_peak wlen (data ibd ichan);
            p1 = p\<lparr>max_i := (max_i p)(ibd := (max_i p ibd)(ichan := mi))\<rparr>;
            p2 = (if mi < min_max_i p1 then p1\<lparr>min_max_i := mi\<rparr> else p1);
            p3 = (if mi > max_max_i p2 then p2\<lparr>max_max_i := mi\<rparr> else p2)
        in if max_v < min_max_v p3 then p3\<lparr>min_max_v := max_v\<rparr> else p3)"

definition find_peaks :: "nat \<Rightarrow> beacon_dev \<Rightarrow> (beacon_which_board_t \<Rightarrow> nat \<Rightarrow> nat \<Rightarrow> u8) \<Rightarrow> peaks" where
  "find_peaks wlen d data =
     fold (\<lambda>ibd p. fold (scan_channel wlen d data ibd) [0 ..< BN_NUM_CHAN] p)
       (board_range (NBD d))
       \<lparr>min_max_i = of_nat wlen, max_max_i = 0, min_max_v = 255, max_i = (\<lambda>_ _. 0)\<rparr>"

text \<open>
  \<^verbatim>\<open>uint8_t delay = (max_i[ibd][2*iadc] + max_i[ibd][2*iadc+1] - 2*min_max_i)/2\<close>: computed
  in \<^verbatim>\<open>int\<close>, then cut to eight bits.
\<close>

definition adc_delay :: "peaks \<Rightarrow> beacon_which_board_t \<Rightarrow> nat \<Rightarrow> u8" where
  "adc_delay p ibd iadc =
     word_of_int
       (c_div (uint (max_i p ibd (2 * iadc)) + uint (max_i p ibd (2 * iadc + 1))
                 - 2 * uint (min_max_i p)) 2)"

text \<open>The frame that sets the delay of one ADC, with the apply bit (bit 4) in bytes 2 and 3.\<close>

definition adc_delay_frame :: "nat \<Rightarrow> u8 \<Rightarrow> frame" where
  "adc_delay_frame iadc delay =
     Frame (REG_ADC_DELAYS + of_nat iadc) 0 ((delay AND 0xf) OR push_bit 4 1)
       ((delay AND 0xf) OR push_bit 4 1)"

text \<open>The body of the loop over the ADCs: skipped when the even channel of the pair is
  masked out, and the write is made only for a delay above zero.\<close>

definition write_adc_delay :: "beacon_dev \<Rightarrow> peaks \<Rightarrow> beacon_which_board_t \<Rightarrow> nat \<Rightarrow> world \<Rightarrow> world" where
  "write_adc_delay d p ibd iadc w =
     (if push_bit (2 * iadc) 1 AND channel_read_mask d ibd = 0 then w
      else
        let delay = adc_delay p ibd iadc
        in if delay > 0 then snd (do_write (fd d ibd) (adc_delay_frame iadc delay) w) else w)"

definition write_adc_delays :: "beacon_dev \<Rightarrow> peaks \<Rightarrow> world \<Rightarrow> world" where
  "write_adc_delays d p w =
     fold (\<lambda>ibd w. fold (write_adc_delay d p ibd) [0 ..< BN_NUM_CHAN div 2] w)
       (board_range (NBD d)) w"

text \<open>
  The pass: \<open>False\<close> is \<^verbatim>\<open>continue\<close> (the attempt is rejected and nothing is written),
  \<open>True\<close> is \<^verbatim>\<open>happy = 1\<close> after the delay writes.
\<close>

definition alignment_attempt :: "nat \<Rightarrow> beacon_dev \<Rightarrow> (beacon_which_board_t \<Rightarrow> nat \<Rightarrow> nat \<Rightarrow> u8) \<Rightarrow> world \<Rightarrow> bool \<times> world" where
  "alignment_attempt wlen d data w =
     (let p = find_peaks wlen d data
      in if uint (min_max_v p) < MIN_GOOD_MAX_V then (False, w)
         else if uint (max_max_i p) - uint (min_max_i p) > 16 then (False, w)
         else (True, write_adc_delays d p w))"

subsection \<open>Notions used in the proofs\<close>

text \<open>A kernel whose multi-transfer ioctl always transfers at least what it is asked to.\<close>

definition kernel_ok :: "world \<Rightarrow> bool" where
  "kernel_ok w \<longleftrightarrow> (\<forall>k n. 4 * int n \<le> xfer_ret w k n)"

text \<open>The members of the handle that the batcher never writes, and the behaviour of the
  world, which no driver action changes.\<close>

definition same_config :: "beacon_dev \<Rightarrow> beacon_dev \<Rightarrow> bool" where
  "same_config d d' \<longleftrightarrow>
     next_read_buffer d' = next_read_buffer d \<and> poll_interval d' = poll_interval d
   \<and> fd d' = fd d \<and> channel_read_mask d' = channel_read_mask d
   \<and> buffer_length d' = buffer_length d \<and> event_counter d' = event_counter d
   \<and> board_id d' = board_id d \<and> pretrigger d' = pretrigger d
   \<and> readout_number_offset d' = readout_number_offset d \<and> cancel_wait d' = cancel_wait d"

definition same_env :: "world \<Rightarrow> world \<Rightarrow> bool" where
  "same_env w w' \<longleftrightarrow>
     xfer_ret w' = xfer_ret w \<and> xfer_rx w' = xfer_rx w \<and> write_ret w' = write_ret w
   \<and> clock w' = clock w \<and> cancel_by w' = cancel_by w"

definition keeps :: "beacon_dev \<Rightarrow> world \<Rightarrow> int \<times> beacon_dev \<times> world \<Rightarrow> bool" where
  "keeps d w res \<longleftrightarrow>
     (case res of (r, d', w') \<Rightarrow>
        same_config d d' \<and> same_env w w' \<and> (kernel_ok w \<longrightarrow> r = 0))"

text \<open>The handle after the two assignments that open the master's pass over a buffer.\<close>

definition advance_cursor :: "beacon_dev \<Rightarrow> beacon_dev" where
  "advance_cursor d =
     d\<lparr>event_counter := event_counter d + 1,
       next_read_buffer := of_nat ((unat (next_read_buffer d) + 1) mod BN_NUM_BUFFER)\<rparr>"

text \<open>Every channel in \<open>S\<close> of the master has its peak between the smallest and the
  largest peak index found.\<close>

definition peaks_bound :: "peaks \<Rightarrow> nat set \<Rightarrow> bool" where
  "peaks_bound p S \<longleftrightarrow>
     (\<forall>c \<in> S. min_max_i p \<le> max_i p MASTER c \<and> max_i p MASTER c \<le> max_max_i p)"

text \<open>One step of the peak search, and what the delay loop logs for one ADC.\<close>

definition peak_step :: "(nat \<Rightarrow> u8) \<Rightarrow> nat \<Rightarrow> u8 \<times> u16 \<Rightarrow> u8 \<times> u16" where
  "peak_step samples = (\<lambda>isamp (max_v, mi). if samples isamp > max_v then (samples isamp, of_nat isamp)
                                else (max_v, mi))"

definition delay_entry :: "beacon_dev \<Rightarrow> peaks \<Rightarrow> beacon_which_board_t \<Rightarrow> nat \<Rightarrow> (int \<times> frame option) list" where
  "delay_entry d p ibd iadc =
     (if push_bit (2 * iadc) 1 AND channel_read_mask d ibd = 0 \<or> adc_delay p ibd iadc = 0 then []
      else [(fd d ibd, Some (adc_delay_frame iadc (adc_delay p ibd iadc)))])"

subsection \<open>Example handles and worlds\<close>

text \<open>
  A world at its start: nothing logged yet, receive buffers zero, with the given
  behaviour of the ioctl, of what the boards answer, of \<^verbatim>\<open>write\<close> and of the clocks.
\<close>

definition new_world :: "(nat \<Rightarrow> nat \<Rightarrow> int) \<Rightarrow> (nat \<Rightarrow> nat \<Rightarrow> frame) \<Rightarrow> (nat \<Rightarrow> int) \<Rightarrow> (clockid_t \<Rightarrow> nat \<Rightarrow> timespec) \<Rightarrow> world" where
  "new_world xr rx wr clk =
     \<lparr>xfer_ret = xr, xfer_rx = rx, n_xfer = 0, write_ret = wr, n_write = 0, clock = clk,
      n_clock = 0, cancel_by = (\<lambda>_. False), n_poll = 0, spi_log = [], sched_log = [],
      mem = (\<lambda>_. Frame 0 0 0 0)\<rparr>"

text \<open>A kernel that always transfers everything, and one whose ioctl always fails.\<close>

definition xfer_all :: "nat \<Rightarrow> nat \<Rightarrow> int" where
  "xfer_all k n = 4 * int n"

definition xfer_fail :: "nat \<Rightarrow> nat \<Rightarrow> int" where
  "xfer_fail k n = -1"

definition write_all :: "nat \<Rightarrow> int" where
  "write_all k = 4"

definition clock_zero :: "clockid_t \<Rightarrow> nat \<Rightarrow> timespec" where
  "clock_zero c k = \<lparr>tv_sec = 0, tv_nsec = 0\<rparr>"

definition rx_zero :: "nat \<Rightarrow> nat \<Rightarrow> frame" where
  "rx_zero k i = Frame 0 0 0 0"

text \<open>An open two-board handle: master on descriptor 3, slave on descriptor 4.\<close>

definition two_board_dev :: beacon_dev where
  "two_board_dev = zero_dev\<lparr>fd := (\<lambda>_. 0)(MASTER := 3, SLAVE := 4)\<rparr>"

text \<open>The same handle with one frame queued for the master.\<close>

definition one_queued_dev :: beacon_dev where
  "one_queued_dev = enqueue two_board_dev MASTER (Some buf_sync_off) None"


text \<open>
  An open single-board handle as \<^verbatim>\<open>beacon_open\<close> leaves it, with a short buffer and one
  channel to read: cursor at buffer 0, nothing queued.
\<close>

definition single_dev :: beacon_dev where
  "single_dev =
     zero_dev\<lparr>fd := (\<lambda>_. 0)(MASTER := 3), buffer_length := 16,
              channel_read_mask := (\<lambda>_. 0)(MASTER := 1),
              current_buf := (\<lambda>_. -1), current_mode := (\<lambda>_. -1)\<rparr>"

definition blank_header :: beacon_header_t where
  "blank_header =
     \<lparr>hd_event_number = 0, hd_trig_number = 0, hd_buffer_length = 0,
      hd_pretrigger_samples = 0, hd_readout_time = (\<lambda>_. 0), hd_readout_time_ns = (\<lambda>_. 0),
      hd_trig_time = (\<lambda>_. 0), hd_triggered_beams = 0, hd_beam_mask = 0, hd_beam_power = 0,
      hd_pps_counter = 0, hd_dynamic_beam_mask = 0, hd_veto_deadtime_counter = 0,
      hd_deadtime = (\<lambda>_. 0), hd_buffer_number = 0, hd_channel_mask = 0,
      hd_channel_read_mask = (\<lambda>_. 0), hd_gate_flag = 0, hd_buffer_mask = 0,
      hd_board_id = (\<lambda>_. 0), hd_trig_type = 0, hd_calpulser = 0, hd_trig_pol = 0,
      hd_sync_problem = 0\<rparr>"

text \<open>
  A board that answers the trigger-info read of the first flush (its transfer 16) with
  hardware buffer index 1 in bits 22 and 23, and zeros everywhere else.
\<close>

definition rx_desync :: "nat \<Rightarrow> nat \<Rightarrow> frame" where
  "rx_desync k i = (if k = 0 \<and> i = 16 then Frame 0x11 0x40 0 0 else Frame 0 0 0 0)"


text \<open>
  System calls that all succeed, with a block from \<^verbatim>\<open>malloc\<close> that holds leftovers.
\<close>

definition open_ok :: open_calls where
  "open_ok =
     \<lparr>open_ret = (\<lambda>_. 3), flock_ret = (\<lambda>_. 0), time_ret = 1700000000,
      malloc_ret = zero_dev\<lparr>poll_interval := 999, cancel_wait := 7\<rparr>\<rparr>"

text \<open>
  Clocks: the monotonic clock stands at 100 s and moves on by 500 microseconds from one
  reading to the next; the wall clock shows 1700000000.5 s.
\<close>

definition wait_clock :: "clockid_t \<Rightarrow> nat \<Rightarrow> timespec" where
  "wait_clock c k =
     (case c of
        CLOCK_MONOTONIC \<Rightarrow> \<lparr>tv_sec = 100, tv_nsec = int k * 500000\<rparr>
      | CLOCK_REALTIME \<Rightarrow> \<lparr>tv_sec = 1700000000, tv_nsec = 500000000\<rparr>)"

text \<open>
  The calibration event of scenario S5: every channel is zero except for one sample of
  value 80 at its peak index; all eight channels of the master are read.
\<close>

definition s5_peaks :: "nat list" where
  "s5_peaks = [100, 101, 104, 105, 100, 102, 103, 105]"

definition s5_data :: "beacon_which_board_t \<Rightarrow> nat \<Rightarrow> nat \<Rightarrow> u8" where
  "s5_data ibd ichan isamp = (if isamp = s5_peaks ! ichan then 80 else 0)"

definition cal_dev :: beacon_dev where
  "cal_dev = single_dev\<lparr>channel_read_mask := (\<lambda>_. 0)(MASTER := 0xff)\<rparr>"

section \<open>Properties\<close>

lemmas reg_defs =
  REG_FIRMWARE_VER_def REG_STATUS_def REG_CLEAR_STATUS_def REG_EVENT_COUNTER_LOW_def
  REG_EVENT_COUNTER_HIGH_def REG_TRIG_COUNTER_LOW_def REG_TRIG_COUNTER_HIGH_def
  REG_TRIG_TIME_LOW_def REG_TRIG_TIME_HIGH_def REG_DEADTIME_def REG_TRIG_INFO_def
  REG_CH_MASKS_def REG_LAST_BEAM_def REG_TRIG_BEAM_POWER_def REG_PPS_COUNTER_def
  REG_HD_DYN_MASK_def REG_USER_MASK_def REG_VETO_DEADTIME_CTR_def REG_CHUNK_def
  REG_SYNC_def REG_ATTEN_012_def REG_ATTEN_345_def REG_ATTEN_67_def REG_ATTEN_APPLY_def
  REG_ADC_DELAYS_def REG_CHANNEL_def REG_MODE_def REG_RAM_ADDR_def REG_CLEAR_def
  REG_BUFFER_def REG_PHASED_TRIGGER_def REG_TIMESTAMP_SELECT_def REG_SET_READ_REG_def
  REG_RESET_COUNTER_def

lemmas example_defs =
  zero_dev_def new_world_def xfer_all_def xfer_fail_def write_all_def clock_zero_def
  rx_zero_def two_board_dev_def one_queued_dev_def enqueue_def single_dev_def
  blank_header_def rx_desync_def

subsection \<open>Transfer batcher\<close>

lemma queued_enqueue:
  "0 \<le> nused d which \<Longrightarrow>
   queued (enqueue d which t r) which = queued d which @ [\<lparr>tx_buf = t, rx_buf = r\<rparr>]"
  by (simp add: queued_def enqueue_def nat_add_distrib)

lemma length_queued: "length (queued d which) = nat (nused d which)"
  by (simp add: queued_def)

text \<open>
  C5, as stated: after every flush, failed or not, the transfer list is empty. On the
  code a failed flush returns before the reset: with one frame queued and an ioctl that
  returns \<open>-1\<close>, \<^verbatim>\<open>buffer_send\<close> reports \<open>-1\<close> and the list still holds its one entry.
\<close>

theorem buffer_send_failed_flush_keeps_list:
  "fst (buffer_send one_queued_dev MASTER (new_world xfer_fail rx_zero write_all clock_zero)) = -1
   \<and> nused (fst (snd (buffer_send one_queued_dev MASTER
        (new_world xfer_fail rx_zero write_all clock_zero)))) MASTER = 1"
  by (simp add: buffer_send_def do_xfer_def Let_def queued_def example_defs BN_SPI_BYTES_def)

text \<open>
  C5, amended: a flush returns 0 or \<open>-1\<close>; when the ioctl transfers fewer bytes than
  requested it returns \<open>-1\<close>; the list is reset to empty exactly when the flush returns 0,
  and a failed flush leaves the handle, and with it the list, as it was.
\<close>

theorem buffer_send_resets_only_on_success:
  assumes "buffer_send d which w = (r, d', w')"
  shows "(r = 0 \<or> r = -1)
       \<and> (nused d which \<noteq> 0
            \<and> xfer_ret w (n_xfer w) (nat (nused d which)) < nused d which * BN_SPI_BYTES
          \<longrightarrow> r = -1)
       \<and> (r = 0 \<longrightarrow> nused d' which = 0)
       \<and> (r = -1 \<longrightarrow> d' = d \<and> nused d' which \<noteq> 0)"
  using assms
  by (auto simp: buffer_send_def do_xfer_def Let_def queued_def split: if_splits prod.splits)

theorem buffer_send_resets_only_on_success_witness:
  "nused one_queued_dev MASTER \<noteq> 0
   \<and> xfer_ret (new_world xfer_fail rx_zero write_all clock_zero)
         (n_xfer (new_world xfer_fail rx_zero write_all clock_zero))
         (nat (nused one_queued_dev MASTER))
       < nused one_queued_dev MASTER * BN_SPI_BYTES
   \<and> fst (buffer_send one_queued_dev MASTER (new_world xfer_fail rx_zero write_all clock_zero)) = -1
   \<and> fst (snd (buffer_send one_queued_dev MASTER (new_world xfer_fail rx_zero write_all clock_zero)))
       = one_queued_dev
   \<and> fst (buffer_send one_queued_dev MASTER (new_world xfer_all rx_zero write_all clock_zero)) = 0
   \<and> nused (fst (snd (buffer_send one_queued_dev MASTER
        (new_world xfer_all rx_zero write_all clock_zero)))) MASTER = 0"
proof -
  let ?wf = "new_world xfer_fail rx_zero write_all clock_zero"
  let ?wa = "new_world xfer_all rx_zero write_all clock_zero"
  have n: "nused one_queued_dev MASTER = 1"
    by (simp add: example_defs)
  have f: "xfer_ret ?wf (n_xfer ?wf) (nat (nused one_queued_dev MASTER)) = -1"
    by (simp add: example_defs)
  have a: "xfer_ret ?wa (n_xfer ?wa) (Suc 0) = 4"
    by (simp add: example_defs)
  have ra: "fst (buffer_send one_queued_dev MASTER ?wa) = 0"
    by (simp add: buffer_send_def do_xfer_def Let_def queued_def n a BN_SPI_BYTES_def)
  have ef: "buffer_send one_queued_dev MASTER ?wf
              = (fst (buffer_send one_queued_dev MASTER ?wf),
                 fst (snd (buffer_send one_queued_dev MASTER ?wf)),
                 snd (snd (buffer_send one_queued_dev MASTER ?wf)))"
    by simp
  have ea: "buffer_send one_queued_dev MASTER ?wa
              = (fst (buffer_send one_queued_dev MASTER ?wa),
                 fst (snd (buffer_send one_queued_dev MASTER ?wa)),
                 snd (snd (buffer_send one_queued_dev MASTER ?wa)))"
    by simp
  note tf = buffer_send_resets_only_on_success [OF ef]
  note ta = buffer_send_resets_only_on_success [OF ea]
  have c1: "nused one_queued_dev MASTER \<noteq> 0" using n by simp
  have c2: "xfer_ret ?wf (n_xfer ?wf) (nat (nused one_queued_dev MASTER))
              < nused one_queued_dev MASTER * BN_SPI_BYTES"
    using n f by (simp add: BN_SPI_BYTES_def)
  have c3: "fst (buffer_send one_queued_dev MASTER ?wf) = -1"
    using tf c1 c2 by blast
  have c4: "fst (snd (buffer_send one_queued_dev MASTER ?wf)) = one_queued_dev"
    using tf c3 by blast
  have c5: "nused (fst (snd (buffer_send one_queued_dev MASTER ?wa))) MASTER = 0"
    using ta ra by blast
  from c1 c2 c3 c4 ra c5 show ?thesis by blast
qed

subsection \<open>Raw write\<close>

text \<open>
  C10: \<^verbatim>\<open>beacon_write\<close> never returns \<open>-1\<close>. It returns \<^verbatim>\<open>2 * BN_SPI_BYTES\<close> exactly when
  the byte total of the underlying writes equals the slave's file descriptor number, and
  0 otherwise, whatever the writes returned.
\<close>

theorem beacon_write_never_minus_one:
  "fst (beacon_write d b w) \<noteq> -1
   \<and> (beacon_write_written d w = fd d SLAVE \<longrightarrow> fst (beacon_write d b w) = 2 * BN_SPI_BYTES)
   \<and> (beacon_write_written d w \<noteq> fd d SLAVE \<longrightarrow> fst (beacon_write d b w) = 0)"
  by (auto simp: beacon_write_def beacon_write_written_def do_write_def Let_def BN_SPI_BYTES_def
           split: prod.splits)

text \<open>
  On the two-board handle (slave on descriptor 4): two failed writes total \<open>-2\<close> and two
  complete writes total 8; both differ from 4 and both are reported as 0.
\<close>

theorem beacon_write_never_minus_one_witness:
  "beacon_write_written two_board_dev (new_world xfer_all rx_zero (\<lambda>_. -1) clock_zero) = -2
   \<and> fd two_board_dev SLAVE = 4
   \<and> fst (beacon_write two_board_dev buf_sync_off
            (new_world xfer_all rx_zero (\<lambda>_. -1) clock_zero)) = 0
   \<and> beacon_write_written two_board_dev (new_world xfer_all rx_zero write_all clock_zero) = 8
   \<and> fst (beacon_write two_board_dev buf_sync_off
            (new_world xfer_all rx_zero write_all clock_zero)) = 0"
  using beacon_write_never_minus_one
          [of two_board_dev buf_sync_off "new_world xfer_all rx_zero (\<lambda>_. -1) clock_zero"]
        beacon_write_never_minus_one
          [of two_board_dev buf_sync_off "new_world xfer_all rx_zero write_all clock_zero"]
  by (simp add: beacon_write_written_def example_defs)

subsection \<open>Board-id counter\<close>

text \<open>
  C9 says the counter never moves backward. Starting from the initial value 1, setting
  ids 1 and 2 brings the counter to 3; setting id 0 then puts it back to 1, because the
  code assigns \<^verbatim>\<open>id+1\<close> whenever \<^verbatim>\<open>id <= board_id_counter\<close>.
\<close>

theorem set_board_id_moves_counter_back:
  "fst (set_board_ids zero_dev [(1, MASTER), (2, MASTER)] board_id_counter_init) = 3
   \<and> fst (set_board_ids zero_dev [(1, MASTER), (2, MASTER), (0, MASTER)] board_id_counter_init) = 1
   \<and> fst (beacon_set_board_id zero_dev 0 MASTER 3) = 1"
  by (simp add: beacon_set_board_id_def board_id_counter_init_def)

subsection \<open>Attenuators\<close>

lemma reverse_buf_bits_same: "reverse_buf_bits b = b"
  by (simp add: reverse_buf_bits_def Let_def)

lemma reverse_bits_examples:
  "reverse_bits 0x01 = 0x80" "reverse_bits 0x80 = 0x01" "reverse_bits 0xA5 = 0xA5"
  by (simp_all add: reverse_bits_def upt_rec)

text \<open>
  C6 asks for the bit-reversed image of every payload byte on the wire and back to the
  caller. With attenuation 1 for channel 0 (and 0 elsewhere) the frame sent for
  \<^verbatim>\<open>REG_ATTEN_012\<close> carries \<open>0x01\<close> in byte 3, not its reversal \<open>0x80\<close>; and a device answer
  whose byte 3 is \<open>0x01\<close> is handed to the caller as \<open>0x01\<close>.
\<close>

theorem attenuation_bytes_not_reversed:
  "spi_log (snd (snd (beacon_set_attenuation two_board_dev (Some ((\<lambda>_. 0)(0 := 1))) None
       (new_world xfer_all rx_zero write_all clock_zero))))
     = [(3, Some (Frame REG_ATTEN_012 0 0 0x01)), (3, Some (Frame REG_ATTEN_345 0 0 0)),
        (3, Some (Frame REG_ATTEN_67 0 0 0)), (3, Some (Frame REG_ATTEN_APPLY 0 0 0))]
   \<and> reverse_bits 0x01 = 0x80
   \<and> (case beacon_get_attenuation two_board_dev (Some (\<lambda>_. 0)) None
            (new_world xfer_all (\<lambda>k i. Frame (if i = 1 then REG_ATTEN_012 else 0) 0 0
                                         (if i = 1 then 0x01 else 0)) write_all clock_zero)
      of (ret, am, as, d, w) \<Rightarrow> ret = 0 \<and> map_option (\<lambda>a. a 0) am = Some 0x01)"
proof -
  have 1: "spi_log (snd (snd (beacon_set_attenuation two_board_dev (Some ((\<lambda>_. 0)(0 := 1))) None
       (new_world xfer_all rx_zero write_all clock_zero))))
     = [(3, Some (Frame REG_ATTEN_012 0 0 0x01)), (3, Some (Frame REG_ATTEN_345 0 0 0)),
        (3, Some (Frame REG_ATTEN_67 0 0 0)), (3, Some (Frame REG_ATTEN_APPLY 0 0 0))]"
    by (simp add: beacon_set_attenuation_def send_atten_def atten_frames_def
          reverse_buf_bits_same synchronized_command_def NBD_def buffer_append_def
          buffer_send_def do_xfer_def queued_def MAX_XFERS_def BN_SPI_BYTES_def
          buf_apply_attenuation_def Let_def example_defs upt_rec)
  have 2: "reverse_bits 0x01 = 0x80"
    by (rule reverse_bits_examples)
  have 3: "(case beacon_get_attenuation two_board_dev (Some (\<lambda>_. 0)) None
            (new_world xfer_all (\<lambda>k i. Frame (if i = 1 then REG_ATTEN_012 else 0) 0 0
                                         (if i = 1 then 0x01 else 0)) write_all clock_zero)
      of (ret, am, as, d, w) \<Rightarrow> ret = 0 \<and> map_option (\<lambda>a. a 0) am = Some 0x01)"
    by (simp add: beacon_get_attenuation_def read_atten_def append_read_register_def
          reverse_buf_bits_same buffer_append_def buffer_send_def do_xfer_def queued_def
          MAX_XFERS_def BN_SPI_BYTES_def Let_def example_defs upt_rec)
  from 1 2 3 show ?thesis by blast
qed

subsection \<open>Synchronized command\<close>

text \<open>
  C2, as stated: with a slave present the transmissions are master:SYNC_ON, slave:CMD,
  master:CMD, master:SYNC_OFF. On the two-board handle (master on descriptor 3, slave on
  4) a pretrigger command goes out as the single frame master:CMD.
\<close>

theorem synchronized_command_slave_not_addressed:
  "fd two_board_dev SLAVE \<noteq> 0
   \<and> spi_log (snd (snd (synchronized_command two_board_dev (Frame 0x4c 0 0 3) 0 (Rx_local 0)
        (Rx_local 1) (new_world xfer_all rx_zero write_all clock_zero))))
       = [(3, Some (Frame 0x4c 0 0 3))]
   \<and> spi_log (snd (snd (synchronized_command two_board_dev (Frame 0x4c 0 0 3) 0 (Rx_local 0)
        (Rx_local 1) (new_world xfer_all rx_zero write_all clock_zero))))
       \<noteq> [(3, Some buf_sync_on), (4, Some (Frame 0x4c 0 0 3)), (3, Some (Frame 0x4c 0 0 3)),
           (3, Some buf_sync_off)]"
  by (simp add: synchronized_command_def NBD_def buffer_append_def buffer_send_def do_xfer_def
        queued_def MAX_XFERS_def BN_SPI_BYTES_def Let_def example_defs upt_rec)

text \<open>
  C2, amended: \<^verbatim>\<open>NBD(d)\<close> is the constant 1, so a synchronized command takes the
  single-board path whether or not a slave is present: with no readback register and
  room in the master's list, it hands the kernel the master's pending transfers followed
  by the one frame master:CMD, in a single flush, and nothing for the slave or the sync
  line.
\<close>

theorem synchronized_command_master_only:
  assumes "0 \<le> nused d MASTER" and "nused d MASTER < MAX_XFERS"
  shows "spi_log (snd (snd (synchronized_command d cmd 0 rm rs w)))
           = spi_log w @ map (\<lambda>x. (fd d MASTER, tx_buf x)) (queued d MASTER)
               @ [(fd d MASTER, Some cmd)]
         \<and> n_xfer (snd (snd (synchronized_command d cmd 0 rm rs w))) = Suc (n_xfer w)"
proof -
  have q: "queued (enqueue d MASTER (Some cmd) None) MASTER
             = queued d MASTER @ [\<lparr>tx_buf = Some cmd, rx_buf = None\<rparr>]"
    using assms(1) by (rule queued_enqueue)
  have e: "fd (enqueue d MASTER (Some cmd) None) MASTER = fd d MASTER"
          "nused (enqueue d MASTER (Some cmd) None) MASTER = nused d MASTER + 1"
    by (simp_all add: enqueue_def)
  show ?thesis
    using assms
    by (simp add: synchronized_command_def NBD_def buffer_append_def buffer_send_def
          do_xfer_def Let_def q e split: prod.splits)
qed

theorem synchronized_command_master_only_witness:
  "0 \<le> nused one_queued_dev MASTER \<and> nused one_queued_dev MASTER < MAX_XFERS
   \<and> spi_log (snd (snd (synchronized_command one_queued_dev (Frame 0x4c 0 0 3) 0 (Rx_local 0)
        (Rx_local 1) (new_world xfer_all rx_zero write_all clock_zero))))
       = [(3, Some buf_sync_off), (3, Some (Frame 0x4c 0 0 3))]"
  using synchronized_command_master_only
          [of one_queued_dev "Frame 0x4c 0 0 3" "Rx_local 0" "Rx_local 1"
              "new_world xfer_all rx_zero write_all clock_zero"]
  by (simp add: queued_def MAX_XFERS_def example_defs)

subsection \<open>What the batcher leaves alone\<close>

lemma same_config_refl [simp]: "same_config d d" by (simp add: same_config_def)
lemma same_env_refl [simp]: "same_env w w" by (simp add: same_env_def)
lemma same_config_trans: "same_config a b \<Longrightarrow> same_config b c \<Longrightarrow> same_config a c"
  by (simp add: same_config_def)
lemma same_env_trans: "same_env a b \<Longrightarrow> same_env b c \<Longrightarrow> same_env a c"
  by (simp add: same_env_def)
lemma kernel_ok_env: "same_env w w' \<Longrightarrow> kernel_ok w \<Longrightarrow> kernel_ok w'"
  by (simp add: same_env_def kernel_ok_def)

lemma keepsI:
  "same_config d d' \<Longrightarrow> same_env w w' \<Longrightarrow> (kernel_ok w \<Longrightarrow> r = 0) \<Longrightarrow> keeps d w (r, d', w')"
  by (simp add: keeps_def)

lemma keeps_then:
  assumes "keeps d w (r1, d1, w1)" and "keeps d1 w1 (r2, d2, w2)"
  shows "keeps d w (r2, d2, w2)" and "keeps d w (r1 + r2, d2, w2)"
  using assms
  by (auto simp: keeps_def intro: same_config_trans same_env_trans dest: kernel_ok_env)

lemma kernel_ok_wrote:
  assumes "kernel_ok w"
  shows "\<not> xfer_ret w (n_xfer w) (nat n) < n * 4"
proof -
  from assms have "4 * int (nat n) \<le> xfer_ret w (n_xfer w) (nat n)"
    unfolding kernel_ok_def by blast
  moreover have "n \<le> int (nat n)" by simp
  ultimately show ?thesis by linarith
qed

lemma keeps_buffer_send: "keeps d w (buffer_send d which w)"
  using kernel_ok_wrote [of w "nused d which"]
  by (auto simp: keeps_def buffer_send_def do_xfer_def Let_def queued_def same_config_def
        same_env_def BN_SPI_BYTES_def split: prod.splits)

lemma keeps_enqueue: "same_config d (enqueue d which t r)"
  by (simp add: same_config_def enqueue_def)

lemma keeps_buffer_append: "keeps d w (buffer_append d which t r w)"
proof (cases "nused d which \<ge> MAX_XFERS")
  case False
  then show ?thesis
    by (simp add: buffer_append_def keeps_def keeps_enqueue)
next
  case True
  obtain r1 d1 w1 where s: "buffer_send d which w = (r1, d1, w1)"
    by (cases "buffer_send d which w") auto
  with keeps_buffer_send [of d w which] have k: "keeps d w (r1, d1, w1)" by simp
  show ?thesis
    using True s k keeps_enqueue [of d1 which t r]
    by (auto simp: buffer_append_def keeps_def intro: same_config_trans)
qed

lemma keeps_append_read_register: "keeps d w (append_read_register d which a r w)"
proof -
  obtain r1 d1 w1 where 1: "buffer_append d which (Some (buf_set_read_reg a)) None w = (r1, d1, w1)"
    by (cases "buffer_append d which (Some (buf_set_read_reg a)) None w") auto
  obtain r2 d2 w2 where 2: "buffer_append d1 which None (Some r) w1 = (r2, d2, w2)"
    by (cases "buffer_append d1 which None (Some r) w1") auto
  from keeps_buffer_append [of d w which "Some (buf_set_read_reg a)" None] 1
  have k1: "keeps d w (r1, d1, w1)" by simp
  from keeps_buffer_append [of d1 w1 which None "Some r"] 2
  have k2: "keeps d1 w1 (r2, d2, w2)" by simp
  show ?thesis
    using keeps_then(2) [OF k1 k2] by (simp add: append_read_register_def 1 2)
qed


lemma keeps_chk:
  assumes "keeps d w res"
      and "\<And>r1 d1 w1. res = (r1, d1, w1) \<Longrightarrow> keeps d1 w1 (g d1 w1)"
  shows "keeps d w (case res of (r1, d1, w1) \<Rightarrow> if r1 \<noteq> 0 then (r1, d1, w1) else g d1 w1)"
proof -
  obtain r1 d1 w1 where r: "res = (r1, d1, w1)" by (cases res) auto
  obtain r2 d2 w2 where g: "g d1 w1 = (r2, d2, w2)" by (cases "g d1 w1") auto
  from assms(1) r have k1: "keeps d w (r1, d1, w1)" by simp
  from assms(2) [OF r] g have k2: "keeps d1 w1 (r2, d2, w2)" by simp
  show ?thesis
    using k1 keeps_then(1) [OF k1 k2] by (simp add: r g)
qed

lemma keeps_if: "keeps d w a \<Longrightarrow> keeps d w b \<Longrightarrow> keeps d w (if c then a else b)"
  by simp

lemma keeps_chk_read_registers: "keeps d w (chk_read_registers d ibd regs w)"
proof (induction regs arbitrary: d w)
  case Nil
  show ?case by (simp add: keeps_def)
next
  case (Cons x regs)
  obtain a r where x: "x = (a, r)" by (cases x) auto
  show ?case
    unfolding x chk_read_registers.simps Let_def
    by (rule keeps_chk [OF keeps_append_read_register]) (rule Cons.IH)
qed

lemma keeps_chunk_loop: "keeps d w (chunk_loop d which result iaddr cs w)"
proof (induction cs arbitrary: d w)
  case Nil
  show ?case by (simp add: keeps_def)
next
  case (Cons c cs)
  show ?case
    unfolding chunk_loop.simps Let_def
    by (rule keeps_chk [OF keeps_buffer_append], rule keeps_chk [OF keeps_buffer_append])
       (rule Cons.IH)
qed

lemma keeps_addr_loop: "keeps d w (addr_loop d which result start as w)"
proof (induction as arbitrary: d w)
  case Nil
  show ?case by (simp add: keeps_def)
next
  case (Cons a as)
  show ?case
    unfolding addr_loop.simps Let_def
    by (rule keeps_chk [OF keeps_buffer_append], rule keeps_chk [OF keeps_chunk_loop])
       (rule Cons.IH)
qed

lemma keeps_loop_over_chunks:
  "keeps d w (loop_over_chunks_half_duplex d which naddr start result w)"
  by (simp add: loop_over_chunks_half_duplex_def keeps_addr_loop)

lemma keeps_mode_switch:
  "keeps d w
     (if current_mode d ibd \<noteq> MODE_WAVEFORMS then
        (let (r, d', w') = buffer_append d ibd (Some (buf_mode (nat MODE_WAVEFORMS))) None w
         in if r \<noteq> 0 then (r, d', w')
            else (0, d'\<lparr>current_mode := (current_mode d')(ibd := MODE_WAVEFORMS)\<rparr>, w'))
      else (0, d, w))"
  using keeps_buffer_append [of d w ibd "Some (buf_mode (nat MODE_WAVEFORMS))" None]
  by (auto simp: keeps_def same_config_def split: prod.splits)

lemma keeps_chan_loop: "keeps d w (chan_loop d ibd ibuf iout cs w)"
proof (induction cs arbitrary: d w)
  case Nil
  show ?case by (simp add: keeps_def)
next
  case (Cons c cs)
  have sel: "\<And>d1 w1. keeps d1 w1
      (if current_buf d1 ibd \<noteq> int ibuf
       then buffer_append d1 ibd (Some (buf_buffer ibuf)) None w1 else (0, d1, w1))"
    by (simp add: keeps_buffer_append) (simp add: keeps_def)
  show ?case
    unfolding chan_loop.simps Let_def
    apply (rule keeps_if)
     apply (rule keeps_chk [OF keeps_mode_switch [unfolded Let_def]])
     apply (rule keeps_chk [OF sel])
     apply (rule keeps_chk [OF keeps_buffer_append])
     apply (rule keeps_chk [OF keeps_loop_over_chunks])
     apply (rule Cons.IH)
    apply (rule Cons.IH)
    done
qed

lemma keeps_synchronized_command:
  "keeps d w (synchronized_command d cmd reg rm rs w)"
proof -
  obtain r1 d1 w1 where 1: "buffer_append d MASTER (Some cmd) None w = (r1, d1, w1)"
    by (cases "buffer_append d MASTER (Some cmd) None w") auto
  obtain r2 d2 w2 where 2:
    "(if reg \<noteq> 0 then append_read_register d1 MASTER reg rm w1 else (0, d1, w1)) = (r2, d2, w2)"
    by (cases "(if reg \<noteq> 0 then append_read_register d1 MASTER reg rm w1 else (0, d1, w1))") auto
  obtain r3 d3 w3 where 3: "buffer_send d2 MASTER w2 = (r3, d3, w3)"
    by (cases "buffer_send d2 MASTER w2") auto
  have k1: "keeps d w (r1, d1, w1)"
    using keeps_buffer_append [of d w MASTER "Some cmd" None] 1 by simp
  have k2: "keeps d1 w1 (r2, d2, w2)"
    using keeps_append_read_register [of d1 w1 MASTER reg rm] 2
    by (auto simp: keeps_def split: if_splits)
  have k3: "keeps d2 w2 (r3, d3, w3)"
    using keeps_buffer_send [of d2 w2 MASTER] 3 by simp
  have "keeps d w (r1 + r2 + r3, d3, w3)"
    using keeps_then(2) [OF keeps_then(2) [OF k1 k2] k3] .
  then show ?thesis
    by (simp add: synchronized_command_def NBD_def 1 2 3)
qed

lemma keeps_mark_buffers_done: "keeps d w (mark_buffers_done d b w)"
proof -
  obtain r1 d1 w1 where 1: "buffer_append d MASTER (Some (buf_clear (unat b))) None w = (r1, d1, w1)"
    by (cases "buffer_append d MASTER (Some (buf_clear (unat b))) None w") auto
  obtain r2 d2 w2 where 2:
    "append_read_register d1 MASTER REG_CLEAR_STATUS (Rx_local 0) w1 = (r2, d2, w2)"
    by (cases "append_read_register d1 MASTER REG_CLEAR_STATUS (Rx_local 0) w1") auto
  obtain r3 d3 w3 where 3: "buffer_send d2 MASTER w2 = (r3, d3, w3)"
    by (cases "buffer_send d2 MASTER w2") auto
  have k1: "keeps d w (r1, d1, w1)"
    using keeps_buffer_append [of d w MASTER "Some (buf_clear (unat b))" None] 1 by simp
  have k2: "keeps d1 w1 (r2, d2, w2)"
    using keeps_append_read_register [of d1 w1 MASTER REG_CLEAR_STATUS "Rx_local 0"] 2 by simp
  have k3: "keeps d2 w2 (r3, d3, w3)"
    using keeps_buffer_send [of d2 w2 MASTER] 3 by simp
  have "keeps d w (r1 + r2 + r3, d3, w3)"
    using keeps_then(2) [OF keeps_then(2) [OF k1 k2] k3] .
  then show ?thesis
    by (simp add: mark_buffers_done_def NBD_def 1 2 3)
qed

subsection \<open>Event readout\<close>

lemma buffer_append_room:
  "nused d which < MAX_XFERS \<Longrightarrow> buffer_append d which t r w = (0, enqueue d which t r, w)"
  by (simp add: buffer_append_def)

lemma nused_enqueue:
  "nused (enqueue d which t r) which' = (if which' = which then nused d which + 1 else nused d which')"
  by (simp add: enqueue_def)

lemma fd_enqueue: "fd (enqueue d which t r) = fd d"
  by (simp add: enqueue_def)

lemma queued_current_buf: "queued (d\<lparr>current_buf := x\<rparr>) which = queued d which"
  by (simp add: queued_def)

lemma queued_empty: "nused d which = 0 \<Longrightarrow> queued d which = []"
  by (simp add: queued_def)

lemma harvest_mem:
  assumes "nused d MASTER = 0"
  shows "mem (snd (snd (harvest_metadata d ibuf iout MASTER w))) Rx_tinfo = xfer_rx w (n_xfer w) 16"
proof -
  let ?d0 = "d\<lparr>event_counter := event_counter d + 1,
                next_read_buffer := of_nat ((unat (next_read_buffer d) + 1) mod BN_NUM_BUFFER)\<rparr>"
  have n0: "nused ?d0 MASTER = 0" using assms by simp
  have q0: "queued ?d0 MASTER = []" using n0 by (rule queued_empty)
  show ?thesis
    using n0 q0
    by (simp add: harvest_metadata_def metadata_regs_def append_read_register_def
          buffer_append_room nused_enqueue fd_enqueue queued_current_buf queued_enqueue
          MAX_XFERS_def buffer_send_def do_xfer_def Let_def BN_SPI_BYTES_def eval_nat_numeral)
qed


lemma keeps_harvest:
  "keeps (if ibd = MASTER then advance_cursor d else d) w (harvest_metadata d ibuf iout ibd w)"
proof -
  let ?d0 = "if ibd = MASTER then advance_cursor d else d"
  have cb: "\<And>r1 d1 w1. keeps d1 w1
      (case chk_read_registers (d1\<lparr>current_buf := (current_buf d1)(ibd := int ibuf)\<rparr>) ibd
              (metadata_regs iout ibd) w1 of
         (r3, d3, w3) \<Rightarrow> if r3 \<noteq> 0 then (r3, d3, w3) else buffer_send d3 ibd w3)"
  proof -
    fix r1 :: int and d1 :: beacon_dev and w1 :: world
    let ?d2 = "d1\<lparr>current_buf := (current_buf d1)(ibd := int ibuf)\<rparr>"
    have "keeps ?d2 w1
      (case chk_read_registers ?d2 ibd (metadata_regs iout ibd) w1 of
         (r3, d3, w3) \<Rightarrow> if r3 \<noteq> 0 then (r3, d3, w3) else buffer_send d3 ibd w3)"
      by (rule keeps_chk [OF keeps_chk_read_registers]) (rule keeps_buffer_send)
    then show "keeps d1 w1
      (case chk_read_registers ?d2 ibd (metadata_regs iout ibd) w1 of
         (r3, d3, w3) \<Rightarrow> if r3 \<noteq> 0 then (r3, d3, w3) else buffer_send d3 ibd w3)"
      by (auto simp: keeps_def same_config_def split: prod.splits)
  qed
  have "keeps ?d0 w
     (case buffer_append ?d0 ibd (Some (buf_buffer ibuf)) None w of
        (r1, d1, w1) \<Rightarrow>
          if r1 \<noteq> 0 then (r1, d1, w1)
          else (case chk_read_registers (d1\<lparr>current_buf := (current_buf d1)(ibd := int ibuf)\<rparr>) ibd
                       (metadata_regs iout ibd) w1 of
                  (r3, d3, w3) \<Rightarrow> if r3 \<noteq> 0 then (r3, d3, w3) else buffer_send d3 ibd w3))"
    by (rule keeps_chk [OF keeps_buffer_append]) (rule cb)
  then show ?thesis
    unfolding harvest_metadata_def advance_cursor_def Let_def .
qed

lemma same_env_clock: "same_env w (snd (clock_gettime c w))"
  by (simp add: same_env_def clock_gettime_def)

text \<open>What one pass over the master does when the cursor's buffer is in the mask.\<close>

lemma read_board_master:
  assumes inmask: "bmask AND push_bit ibuf 1 \<noteq> 0"
  shows "\<exists>e d' h' w'.
           read_board d bmask ibuf iout MASTER h w = (e, ibuf, d', h', w')
         \<and> e \<noteq> Break
         \<and> same_config (advance_cursor d) d'
         \<and> same_env w w'
         \<and> (kernel_ok w \<longrightarrow> e = Next_board)
         \<and> (kernel_ok w \<longrightarrow> nused d MASTER = 0 \<longrightarrow>
              hd_sync_problem h' =
                (if unat (hwbuf_of (be32toh (xfer_rx w (n_xfer w) 16))) \<noteq> ibuf
                 then hd_sync_problem h OR 1 else hd_sync_problem h))"
proof -
  obtain now w0 where c: "clock_gettime CLOCK_REALTIME w = (now, w0)"
    by (cases "clock_gettime CLOCK_REALTIME w") auto
  have e0: "same_env w w0" using same_env_clock [of w CLOCK_REALTIME] c by simp
  have x0: "n_xfer w0 = n_xfer w" "xfer_rx w0 = xfer_rx w"
    using c by (auto simp: clock_gettime_def)
  obtain r4 d4 w4 where hv: "harvest_metadata d ibuf iout MASTER w0 = (r4, d4, w4)"
    by (cases "harvest_metadata d ibuf iout MASTER w0") auto
  from keeps_harvest [of MASTER d w0 ibuf iout] hv
  have k4: "keeps (advance_cursor d) w0 (r4, d4, w4)" by simp
  obtain r6 d6 w6 where cl: "chan_loop d4 MASTER ibuf iout [0 ..< BN_NUM_CHAN] w4 = (r6, d6, w6)"
    by (cases "chan_loop d4 MASTER ibuf iout [0 ..< BN_NUM_CHAN] w4") auto
  from keeps_chan_loop [of d4 w4 MASTER ibuf iout "[0 ..< BN_NUM_CHAN]"] cl
  have k6: "keeps d4 w4 (r6, d6, w6)" by simp
  obtain r8 d8 w8 where bs: "buffer_send d6 MASTER w6 = (r8, d8, w8)"
    by (cases "buffer_send d6 MASTER w6") auto
  from keeps_buffer_send [of d6 w6 MASTER] bs
  have k8: "keeps d6 w6 (r8, d8, w8)" by simp
  note k46 = keeps_then(1) [OF k4 k6]
  note k48 = keeps_then(1) [OF k46 k8]
  let ?h5 = "fill_header d4 bmask ibuf iout MASTER now (mem w4) h"
  have sp5: "hd_sync_problem ?h5 =
               (if unat (hwbuf_of (be32toh (mem w4 Rx_tinfo))) \<noteq> ibuf
                then hd_sync_problem h OR 1 else hd_sync_problem h)"
    by (simp add: fill_header_def Let_def)
  have sp7: "hd_sync_problem (zero_slave_fields ?h5) = hd_sync_problem ?h5"
    by (simp add: zero_slave_fields_def)
  have m4: "nused d MASTER = 0 \<Longrightarrow> mem w4 Rx_tinfo = xfer_rx w (n_xfer w) 16"
    using harvest_mem [of d ibuf iout w0] hv x0 by simp
  have ok0: "kernel_ok w \<Longrightarrow> kernel_ok w0" using e0 by (rule kernel_ok_env)
  show ?thesis
    using inmask e0 k4 k46 k48 ok0 m4 sp5 sp7
    by (auto simp: read_board_def c hv cl bs Let_def keeps_def NBD_def BN_MAX_BOARDS_def
          intro: same_env_trans dest: kernel_ok_env)
qed


lemma read_board_break:
  assumes "bmask AND push_bit ibuf 1 = 0"
  shows "read_board d bmask ibuf iout ibd h w
           = (Break, ctz bmask, d\<lparr>next_read_buffer := of_nat (ctz bmask)\<rparr>, h, w)"
  using assms by (simp add: read_board_def)

lemma board_range_NBD: "board_range (NBD d) = [MASTER]"
  by (simp add: board_range_def NBD_def)

text \<open>One pass of the outer loop when the cursor's buffer is in the mask.\<close>

lemma read_buffer_in_mask:
  assumes inmask: "bmask AND push_bit (unat (next_read_buffer d)) 1 \<noteq> 0"
  shows "\<exists>ok d' h' w'.
           read_buffer d bmask iout h w = (ok, d', h', w')
         \<and> next_read_buffer d' = next_read_buffer (advance_cursor d)
         \<and> same_env w w'
         \<and> (kernel_ok w \<longrightarrow> ok)
         \<and> (kernel_ok w \<longrightarrow> nused d MASTER = 0 \<longrightarrow>
              hd_sync_problem h' =
                (if hwbuf_of (be32toh (xfer_rx w (n_xfer w) 16)) \<noteq> next_read_buffer d
                 then 1 else 0))"
proof -
  let ?h0 = "h\<lparr>hd_sync_problem := 0\<rparr>"
  let ?ibuf = "unat (next_read_buffer d)"
  from read_board_master [OF inmask, of d iout ?h0 w]
  obtain e d1 h1 w1 where
        rb: "read_board d bmask ?ibuf iout MASTER ?h0 w = (e, ?ibuf, d1, h1, w1)"
    and nb: "e \<noteq> Break"
    and c1: "same_config (advance_cursor d) d1"
    and e1: "same_env w w1"
    and ok1: "kernel_ok w \<longrightarrow> e = Next_board"
    and sp: "kernel_ok w \<longrightarrow> nused d MASTER = 0 \<longrightarrow>
              hd_sync_problem h1 =
                (if unat (hwbuf_of (be32toh (xfer_rx w (n_xfer w) 16))) \<noteq> ?ibuf
                 then hd_sync_problem ?h0 OR 1 else hd_sync_problem ?h0)"
    by blast
  have weq: "(unat (hwbuf_of (be32toh (xfer_rx w (n_xfer w) 16))) \<noteq> ?ibuf)
               = (hwbuf_of (be32toh (xfer_rx w (n_xfer w) 16)) \<noteq> next_read_buffer d)"
    by (simp add: word_unat_eq_iff)
  obtain r2 d2 w2 where mb: "mark_buffers_done d1 (push_bit ?ibuf 1) w1 = (r2, d2, w2)"
    by (cases "mark_buffers_done d1 (push_bit ?ibuf 1) w1") auto
  from keeps_mark_buffers_done [of d1 w1 "push_bit ?ibuf 1"] mb
  have k2: "keeps d1 w1 (r2, d2, w2)" by simp
  have c2: "next_read_buffer d2 = next_read_buffer (advance_cursor d)"
    using c1 k2 by (simp add: keeps_def same_config_def)
  have c1': "next_read_buffer d1 = next_read_buffer (advance_cursor d)"
    using c1 by (simp add: same_config_def)
  have e2: "same_env w w2"
    using e1 k2 by (auto simp: keeps_def intro: same_env_trans)
  show ?thesis
  proof (cases e)
    case Break
    with nb show ?thesis by simp
  next
    case The_end
    then show ?thesis
      using rb c1' e1 ok1
      by (auto simp: read_buffer_def board_range_NBD)
  next
    case Next_board
    then show ?thesis
      using rb mb c2 e2 sp weq
      by (auto simp: read_buffer_def board_range_NBD)
  qed
qed

text \<open>Any pass: the environment is untouched, and with a kernel that transfers
  everything the pass does not fail.\<close>

lemma read_buffer_any:
  "\<exists>ok d' h' w'.
     read_buffer d bmask iout h w = (ok, d', h', w') \<and> same_env w w' \<and> (kernel_ok w \<longrightarrow> ok)"
proof (cases "bmask AND push_bit (unat (next_read_buffer d)) 1 = 0")
  case False
  from read_buffer_in_mask [OF False, of iout h w] show ?thesis by blast
next
  case True
  let ?d1 = "d\<lparr>next_read_buffer := of_nat (ctz bmask)\<rparr>"
  obtain r2 d2 w2 where mb: "mark_buffers_done ?d1 (push_bit (ctz bmask) 1) w = (r2, d2, w2)"
    by (cases "mark_buffers_done ?d1 (push_bit (ctz bmask) 1) w") auto
  from keeps_mark_buffers_done [of ?d1 w "push_bit (ctz bmask) 1"] mb
  have "same_env w w2" by (simp add: keeps_def)
  then show ?thesis
    using True mb
    by (auto simp: read_buffer_def board_range_NBD read_board_break)
qed

lemma read_loop_ok:
  "kernel_ok w \<Longrightarrow> fst (read_loop n d bmask iout hds w) = 0"
proof (induction n arbitrary: d iout hds w)
  case 0
  show ?case by simp
next
  case (Suc n)
  from read_buffer_any [of d bmask iout "hds iout" w]
  obtain ok d1 h1 w1 where
        rb: "read_buffer d bmask iout (hds iout) w = (ok, d1, h1, w1)"
    and e: "same_env w w1" and k: "kernel_ok w \<longrightarrow> ok"
    by blast
  from Suc.prems e have "kernel_ok w1" by (rule kernel_ok_env [rotated])
  with Suc.IH have "fst (read_loop n d1 bmask (Suc iout) (hds(iout := h1)) w1) = 0" .
  with Suc.prems k rb show ?case by simp
qed

lemma read_loop_headers_below:
  "j < iout \<Longrightarrow> fst (snd (snd (read_loop n d bmask iout hds w))) j = hds j"
proof (induction n arbitrary: d iout hds w)
  case 0
  show ?case by simp
next
  case (Suc n)
  obtain ok d1 h1 w1 where rb: "read_buffer d bmask iout (hds iout) w = (ok, d1, h1, w1)"
    by (cases "read_buffer d bmask iout (hds iout) w") auto
  from Suc.prems have "j < Suc iout" by simp
  then have "fst (snd (snd (read_loop n d1 bmask (Suc iout) (hds(iout := h1)) w1))) j
               = (hds(iout := h1)) j"
    by (rule Suc.IH)
  also have "\<dots> = hds j" using Suc.prems by simp
  finally have step: "fst (snd (snd (read_loop n d1 bmask (Suc iout) (hds(iout := h1)) w1))) j
                        = hds j" .
  show ?case
  proof (cases ok)
    case True
    with rb step show ?thesis by simp
  next
    case False
    with rb Suc.prems show ?thesis by simp
  qed
qed

lemma popcount_pos:
  assumes "bmask AND push_bit i 1 \<noteq> 0"
  shows "0 < popcount bmask"
proof -
  from assms obtain n where "bit (bmask AND push_bit i 1) n"
    by (auto simp: bit_eq_iff)
  then have b: "bit bmask n" and "n = i" and "n < 8"
    by (auto simp: bit_simps dest: bit_imp_le_length)
  then have "n \<in> set (filter (bit bmask) [0 ..< 8])" by simp
  then show ?thesis
    unfolding popcount_def by (metis length_pos_if_in_set)
qed

text \<open>
  C1, as stated: the cursor advances only when the buffer has been drained, and a read
  that fails partway leaves it unchanged. On the single-board handle with the cursor at
  buffer 0, a read of mask \<open>0001\<close> whose first flush fails returns 1 and leaves the cursor
  at 1.
\<close>

theorem failed_read_has_advanced_cursor:
  "next_read_buffer single_dev = 0
   \<and> fst (beacon_read_multiple_ptr single_dev 1 (\<lambda>_. blank_header)
           (new_world xfer_fail rx_zero write_all clock_zero)) = 1
   \<and> next_read_buffer (fst (snd (beacon_read_multiple_ptr single_dev 1 (\<lambda>_. blank_header)
           (new_world xfer_fail rx_zero write_all clock_zero)))) = 1"
  by (simp add: beacon_read_multiple_ptr_def popcount_def read_buffer_def board_range_NBD
        read_board_def harvest_metadata_def metadata_regs_def append_read_register_def
        buffer_append_room nused_enqueue fd_enqueue clock_gettime_def
        MAX_XFERS_def buffer_send_def do_xfer_def Let_def BN_SPI_BYTES_def BN_NUM_BUFFER_def
        example_defs upt_rec)

text \<open>
  C1, amended: in every pass of the readout loop whose cursor buffer is in the mask, the
  cursor is advanced by one modulo 4 when the pass starts, before anything is queued, and
  it stays advanced whether the buffer is then drained or the pass fails.
\<close>

theorem read_cursor_advances_at_start:
  assumes "bmask AND push_bit (unat (next_read_buffer d)) 1 \<noteq> 0"
  shows "next_read_buffer (fst (snd (read_buffer d bmask iout h w)))
           = of_nat ((unat (next_read_buffer d) + 1) mod BN_NUM_BUFFER)"
  using read_buffer_in_mask [OF assms, of iout h w]
  by (auto simp: advance_cursor_def)

theorem read_cursor_advances_at_start_witness:
  "(1 :: u8) AND push_bit (unat (next_read_buffer single_dev)) 1 \<noteq> 0
   \<and> \<not> fst (read_buffer single_dev 1 0 blank_header
            (new_world xfer_fail rx_zero write_all clock_zero))
   \<and> next_read_buffer (fst (snd (read_buffer single_dev 1 0 blank_header
            (new_world xfer_fail rx_zero write_all clock_zero)))) = 1"
proof -
  have c: "next_read_buffer single_dev = 0" by (simp add: example_defs)
  have m: "(1 :: u8) AND push_bit (unat (next_read_buffer single_dev)) 1 \<noteq> 0"
    by (simp add: c)
  have f: "\<not> fst (read_buffer single_dev 1 0 blank_header
            (new_world xfer_fail rx_zero write_all clock_zero))"
    by (simp add: read_buffer_def board_range_NBD
        read_board_def harvest_metadata_def metadata_regs_def append_read_register_def
        buffer_append_room nused_enqueue fd_enqueue clock_gettime_def
        MAX_XFERS_def buffer_send_def do_xfer_def Let_def BN_SPI_BYTES_def BN_NUM_BUFFER_def
        example_defs upt_rec)
  from read_cursor_advances_at_start [OF m, of 0 blank_header
         "new_world xfer_fail rx_zero write_all clock_zero"]
  have "next_read_buffer (fst (snd (read_buffer single_dev 1 0 blank_header
            (new_world xfer_fail rx_zero write_all clock_zero)))) = 1"
    by (simp add: c BN_NUM_BUFFER_def)
  with m f show ?thesis by blast
qed

text \<open>
  C3: when the kernel transfers everything and the hardware buffer index in bits 22 and
  23 of the trigger-info word of the first buffer differs from the buffer under the
  cursor, the read still returns 0 and the first header has bit 0 of its sync-problem
  member set. (The list is empty on entry, as after every completed call, so the
  trigger-info word is what the first ioctl delivers in its transfer 16.)
\<close>

theorem desync_flagged_not_fatal:
  assumes ok: "kernel_ok w"
      and empty: "nused d MASTER = 0"
      and inmask: "bmask AND push_bit (unat (next_read_buffer d)) 1 \<noteq> 0"
      and differs: "hwbuf_of (be32toh (xfer_rx w (n_xfer w) 16)) \<noteq> next_read_buffer d"
  shows "fst (beacon_read_multiple_ptr d bmask hds w) = 0
       \<and> bit (hd_sync_problem (fst (snd (snd (beacon_read_multiple_ptr d bmask hds w))) 0)) 0"
proof -
  from popcount_pos [OF inmask] obtain n where n: "popcount bmask = Suc n"
    by (cases "popcount bmask") auto
  from read_buffer_in_mask [OF inmask, of 0 "hds 0" w] ok empty differs
  obtain ok1 d1 h1 w1 where
        rb: "read_buffer d bmask 0 (hds 0) w = (ok1, d1, h1, w1)"
    and e: "same_env w w1" and t: "ok1" and sp: "hd_sync_problem h1 = 1"
    by auto
  from ok e have ok': "kernel_ok w1" by (rule kernel_ok_env [rotated])
  have r: "fst (read_loop n d1 bmask (Suc 0) (hds(0 := h1)) w1) = 0"
    using ok' by (rule read_loop_ok)
  have h: "fst (snd (snd (read_loop n d1 bmask (Suc 0) (hds(0 := h1)) w1))) 0 = h1"
    using read_loop_headers_below [of 0 "Suc 0" n d1 bmask "hds(0 := h1)" w1] by simp
  show ?thesis
    using rb t r h sp by (simp add: beacon_read_multiple_ptr_def n)
qed

theorem desync_flagged_not_fatal_witness:
  "kernel_ok (new_world xfer_all rx_desync write_all clock_zero)
   \<and> nused single_dev MASTER = 0
   \<and> (1 :: u8) AND push_bit (unat (next_read_buffer single_dev)) 1 \<noteq> 0
   \<and> hwbuf_of (be32toh (xfer_rx (new_world xfer_all rx_desync write_all clock_zero)
                 (n_xfer (new_world xfer_all rx_desync write_all clock_zero)) 16)) = 1
   \<and> next_read_buffer single_dev = 0
   \<and> fst (beacon_read_multiple_ptr single_dev 1 (\<lambda>_. blank_header)
           (new_world xfer_all rx_desync write_all clock_zero)) = 0
   \<and> bit (hd_sync_problem (fst (snd (snd (beacon_read_multiple_ptr single_dev 1
           (\<lambda>_. blank_header) (new_world xfer_all rx_desync write_all clock_zero)))) 0)) 0"
proof -
  let ?w = "new_world xfer_all rx_desync write_all clock_zero"
  have k: "kernel_ok ?w" by (simp add: kernel_ok_def example_defs)
  have n: "nused single_dev MASTER = 0" by (simp add: example_defs)
  have c: "next_read_buffer single_dev = 0" by (simp add: example_defs)
  have m: "(1 :: u8) AND push_bit (unat (next_read_buffer single_dev)) 1 \<noteq> 0"
    by (simp add: c)
  have x: "xfer_rx ?w (n_xfer ?w) 16 = Frame 0x11 0x40 0 0" by (simp add: example_defs)
  have hb: "hwbuf_of (be32toh (xfer_rx ?w (n_xfer ?w) 16)) = 1"
    unfolding x by (simp add: hwbuf_of_def be32toh_def)
  have df: "hwbuf_of (be32toh (xfer_rx ?w (n_xfer ?w) 16)) \<noteq> next_read_buffer single_dev"
    by (simp add: hb c)
  from desync_flagged_not_fatal [OF k n m df, of "\<lambda>_. blank_header"] k n m hb c
  show ?thesis by blast
qed

subsection \<open>Waiting for a buffer\<close>

lemmas io_defs =
  buffer_append_def buffer_send_def do_xfer_def do_write_def queued_def
  append_read_register_def clock_gettime_def MAX_XFERS_def BN_SPI_BYTES_def Let_def

text \<open>
  C4 says a wait with no buffer ready times out only after the timeout has elapsed on
  the monotonic clock, the elapsed time being the difference of two monotonic readings in
  seconds. With a timeout of 5 s, no buffer ready, a loop entry at 100 s on the monotonic
  clock and a wall clock at 1700000000.5 s, the code computes
  \<open>(1700000000 - 0) * 1e-9 * (500000000 - 0) = 850000000\<close> after the first poll and returns
  0 with an empty mask: one poll, two clock readings, 1 ms of monotonic time gone.
\<close>

theorem wait_times_out_after_one_poll:
  "(case beacon_wait 10 single_dev 5 MASTER (new_world xfer_all rx_zero write_all wait_clock) of
      None \<Rightarrow> False
    | Some (r, rb, d, w) \<Rightarrow> r = 0 \<and> rb = Some 0 \<and> n_poll w = 1 \<and> n_clock w = 2)
   \<and> waited_after (wait_clock CLOCK_MONOTONIC 0) (wait_clock CLOCK_REALTIME 1) = 850000000
   \<and> real_of_int (tv_sec (wait_clock CLOCK_MONOTONIC 2) - tv_sec (wait_clock CLOCK_MONOTONIC 0))
       + real_of_int (tv_nsec (wait_clock CLOCK_MONOTONIC 2) - tv_nsec (wait_clock CLOCK_MONOTONIC 0))
           / 1000000000
       = 1 / 1000"
  by (simp add: beacon_wait_def beacon_check_buffers_def waited_after_def wait_clock_def
        io_defs example_defs eval_nat_numeral upt_rec)

subsection \<open>Opening the device\<close>

text \<open>
  C8 says the poll interval is 500 microseconds after a successful open. With every
  system call succeeding, \<^verbatim>\<open>beacon_open\<close> returns a handle whose poll interval is 0, because
  the block is zeroed after the interval has been assigned; a wait on that handle with no
  buffer ready yields the CPU instead of sleeping.
\<close>

theorem open_leaves_poll_interval_zero:
  "(case beacon_open open_ok False 0 board_id_counter_init
           (new_world xfer_all rx_zero write_all wait_clock) of
      (None, c, w) \<Rightarrow> False
    | (Some d, c, w) \<Rightarrow>
        poll_interval d = 0
      \<and> (case beacon_wait 10 d 5 MASTER w of
            None \<Rightarrow> False
          | Some (r, rb, d', w') \<Rightarrow> r = 0 \<and> rb = Some 0 \<and> sched_log w' = [Sched_yield]))"
  by (simp add: beacon_open_def beacon_read_register_def beacon_reset_counters_def
        beacon_phased_trigger_readout_def board_range_def NBD_def memset_zero_def
        avg_time_def c_div_def open_ok_def board_id_counter_init_def SPI_CLOCK_def
        beacon_wait_def beacon_check_buffers_def waited_after_def wait_clock_def
        buf_reset_counter_def buf_reset_buf_def buf_clear_def reg_defs buf_set_read_reg_def
        io_defs example_defs eval_nat_numeral upt_rec)

text \<open>The same for every open that returns a handle, whatever the system calls and the
  boards do.\<close>

lemma keeps_beacon_read_register:
  "same_config d (fst (snd (beacon_read_register d a r which w)))"
proof -
  obtain r1 d1 w1 where 1: "append_read_register d which a r w = (r1, d1, w1)"
    by (cases "append_read_register d which a r w") auto
  obtain r2 d2 w2 where 2: "buffer_send d1 which w1 = (r2, d2, w2)"
    by (cases "buffer_send d1 which w1") auto
  from keeps_append_read_register [of d w which a r] 1 have "same_config d d1"
    by (simp add: keeps_def)
  moreover from keeps_buffer_send [of d1 w1 which] 2 have "same_config d1 d2"
    by (simp add: keeps_def)
  ultimately have "same_config d d2" by (rule same_config_trans)
  then show ?thesis by (simp add: beacon_read_register_def 1 2 Let_def)
qed

lemma reset_counters_poll_interval:
  "poll_interval (fst (snd (beacon_reset_counters d w))) = poll_interval d"
  by (simp add: beacon_reset_counters_def beacon_phased_trigger_readout_def NBD_def Let_def
        split: prod.splits bool.splits)

lemma beacon_open_poll_interval:
  assumes "fst (beacon_open sys have_slave locking counter w) = Some d"
  shows "poll_interval d = 0"
proof -
  have z: "poll_interval zero_dev = 0" by (simp add: zero_dev_def)
  have rr: "\<And>d a r which w. poll_interval (fst (snd (beacon_read_register d a r which w))) = poll_interval d"
    using keeps_beacon_read_register by (simp add: same_config_def)
  show ?thesis
    using assms
    by (auto simp: beacon_open_def memset_zero_def Let_def z rr reset_counters_poll_interval
          split: if_splits prod.splits
          dest!: arg_cong [where f = "\<lambda>x. poll_interval (fst (snd x))"])
qed

subsection \<open>ADC alignment\<close>

lemma chans: "[0 ..< BN_NUM_CHAN] = [0, 1, 2, 3, 4, 5, 6, 7]"
  by (simp add: BN_NUM_CHAN_def upt_rec)

lemma find_peaks_master:
  "find_peaks wlen d data =
     fold (scan_channel wlen d data MASTER) [0, 1, 2, 3, 4, 5, 6, 7]
       \<lparr>min_max_i = of_nat wlen, max_max_i = 0, min_max_v = 255, max_i = (\<lambda>_ _. 0)\<rparr>"
  unfolding find_peaks_def chans by (simp add: board_range_def NBD_def)

lemma scan_channel_bound:
  assumes "peaks_bound p S" and "c \<notin> S"
  shows "peaks_bound (scan_channel wlen d data MASTER c p)
           (if push_bit c 1 AND channel_read_mask d MASTER = 0 then S else insert c S)"
proof -
  obtain v mi where f: "find_peak wlen (data MASTER c) = (v, mi)"
    by (cases "find_peak wlen (data MASTER c)") auto
  show ?thesis
    using assms
    by (auto simp: scan_channel_def peaks_bound_def f Let_def)
qed

lemma fold_scan_bound:
  assumes "distinct cs" and "set cs \<inter> S = {}" and "peaks_bound p S"
  shows "peaks_bound (fold (scan_channel wlen d data MASTER) cs p)
           (S \<union> {c \<in> set cs. push_bit c 1 AND channel_read_mask d MASTER \<noteq> 0})"
  using assms
proof (induction cs arbitrary: p S)
  case Nil
  then show ?case by simp
next
  case (Cons c cs)
  let ?S1 = "if push_bit c 1 AND channel_read_mask d MASTER = 0 then S else insert c S"
  from Cons.prems have cS: "c \<notin> S" by auto
  have b1: "peaks_bound (scan_channel wlen d data MASTER c p) ?S1"
    using Cons.prems(3) cS by (rule scan_channel_bound)
  have d1: "distinct cs" using Cons.prems(1) by simp
  have i1: "set cs \<inter> ?S1 = {}" using Cons.prems(1,2) by auto
  from Cons.IH [OF d1 i1 b1]
  have "peaks_bound (fold (scan_channel wlen d data MASTER) cs (scan_channel wlen d data MASTER c p))
          (?S1 \<union> {c \<in> set cs. push_bit c 1 AND channel_read_mask d MASTER \<noteq> 0})" .
  moreover have "?S1 \<union> {c \<in> set cs. push_bit c 1 AND channel_read_mask d MASTER \<noteq> 0}
                   = S \<union> {x \<in> set (c # cs). push_bit x 1 AND channel_read_mask d MASTER \<noteq> 0}"
    by auto
  ultimately show ?case by simp
qed

lemma find_peaks_bound:
  assumes "c < 8" and "push_bit c 1 AND channel_read_mask d MASTER \<noteq> 0"
  shows "min_max_i (find_peaks wlen d data) \<le> max_i (find_peaks wlen d data) MASTER c"
    and "max_i (find_peaks wlen d data) MASTER c \<le> max_max_i (find_peaks wlen d data)"
proof -
  let ?init = "\<lparr>min_max_i = of_nat wlen, max_max_i = 0, min_max_v = 255, max_i = (\<lambda>_ _. 0)\<rparr> :: peaks"
  have "peaks_bound (fold (scan_channel wlen d data MASTER) [0, 1, 2, 3, 4, 5, 6, 7] ?init)
          ({} \<union> {c \<in> set [0, 1, 2, 3, 4, 5, 6, 7]. push_bit c 1 AND channel_read_mask d MASTER \<noteq> 0})"
    by (rule fold_scan_bound) (simp_all add: peaks_bound_def)
  then have pb: "peaks_bound (find_peaks wlen d data)
          {c \<in> set [0, 1, 2, 3, 4, 5, 6, 7]. push_bit c 1 AND channel_read_mask d MASTER \<noteq> 0}"
    by (simp add: find_peaks_master)
  from assms(1) have "c \<in> set [0, 1, 2, 3, 4, 5, 6, 7 :: nat]" by auto
  with assms(2) pb show
    "min_max_i (find_peaks wlen d data) \<le> max_i (find_peaks wlen d data) MASTER c"
    "max_i (find_peaks wlen d data) MASTER c \<le> max_max_i (find_peaks wlen d data)"
    unfolding peaks_bound_def by blast+
qed

lemma uint_u8: "0 \<le> y \<Longrightarrow> y < 256 \<Longrightarrow> uint (word_of_int y :: u8) = y"
  by (simp add: uint_word_of_int take_bit_int_eq_self)

text \<open>The delay of a pair whose two channels lie within 16 samples above the minimum.\<close>

lemma adc_delay_value:
  assumes "m \<le> a" "m \<le> b" "a \<le> M" "b \<le> M" "M - m \<le> (16 :: int)"
  shows "uint (word_of_int (c_div (a + b - 2 * m) 2) :: u8) = (a + b) div 2 - m"
proof -
  have n: "0 \<le> a + b - 2 * m" using assms by linarith
  have u: "a + b - 2 * m \<le> 32" using assms by linarith
  have c: "c_div (a + b - 2 * m) 2 = (a + b - 2 * m) div 2"
    using n by (simp add: c_div_def)
  have e: "(a + b - 2 * m) div 2 = (a + b) div 2 - m" by linarith
  have r: "0 \<le> (a + b - 2 * m) div 2" "(a + b - 2 * m) div 2 < 256" using n u by linarith+
  have "uint (word_of_int ((a + b - 2 * m) div 2) :: u8) = (a + b - 2 * m) div 2"
    using r by (rule uint_u8)
  then show ?thesis
    by (simp only: c e)
qed

text \<open>What the delay loop adds to the log.\<close>

lemma log_write_adc_delay:
  "spi_log (write_adc_delay d p ibd iadc w) = spi_log w @ delay_entry d p ibd iadc"
  by (simp add: write_adc_delay_def delay_entry_def do_write_def Let_def word_greater_zero_iff)

lemma log_fold_write_adc_delay:
  "spi_log (fold (write_adc_delay d p ibd) is w)
     = spi_log w @ concat (map (delay_entry d p ibd) is)"
  by (induction "is" arbitrary: w) (simp_all add: log_write_adc_delay)

lemma log_write_adc_delays:
  "spi_log (write_adc_delays d p w)
     = spi_log w @ concat (map (delay_entry d p MASTER) [0, 1, 2, 3])"
proof -
  have l: "[0 ..< BN_NUM_CHAN div 2] = [0, 1, 2, 3]"
    by (simp add: BN_NUM_CHAN_def upt_rec)
  have "write_adc_delays d p w = fold (write_adc_delay d p MASTER) [0 ..< BN_NUM_CHAN div 2] w"
    by (simp add: write_adc_delays_def board_range_def NBD_def)
  then show ?thesis
    by (simp only: log_fold_write_adc_delay l)
qed

lemma drop_length_append: "drop (length xs) (xs @ ys) = ys"
  by simp

lemma adc_reg_distinct:
  assumes "i < 4" "k < 4"
  shows "(REG_ADC_DELAYS + of_nat i = REG_ADC_DELAYS + (of_nat k :: u8)) = (i = k)"
proof -
  from assms have "i \<in> {0, 1, 2, 3}" "k \<in> {0, 1, 2, 3}" by auto
  then show ?thesis by (auto simp: REG_ADC_DELAYS_def)
qed

lemma filter_delay_entry:
  assumes "i < 4" "k < 4"
  shows "filter (\<lambda>x. map_option fb0 (snd x) = Some (REG_ADC_DELAYS + of_nat k)) (delay_entry d p ibd i)
           = (if i = k then delay_entry d p ibd k else [])"
  using adc_reg_distinct [OF assms]
  by (auto simp: delay_entry_def adc_delay_frame_def)

text \<open>The calibration event of scenario S5, evaluated.\<close>

lemma fold_peak_below:
  "\<forall>i \<in> set xs. samples i \<le> v \<Longrightarrow> fold (peak_step samples) xs (v, q) = (v, q)"
  by (induction xs) (auto simp: peak_step_def)

lemma find_peak_spike:
  assumes "q < wlen" and "0 < v"
  shows "find_peak wlen (\<lambda>i. if i = q then v else 0) = (v, of_nat q)"
proof -
  let ?s = "\<lambda>i. if i = q then v else (0 :: u8)"
  have split: "[0 ..< wlen] = [0 ..< q] @ q # [Suc q ..< wlen]"
    using assms(1) by (metis le_add1 less_imp_add_positive upt_add_eq_append upt_conv_Cons zero_le)
  have a: "fold (peak_step ?s) [0 ..< q] (0, 0) = (0, 0)"
    by (rule fold_peak_below) simp
  have b: "peak_step ?s q (0, 0) = (v, of_nat q)"
    using assms(2) by (simp add: peak_step_def)
  have c: "fold (peak_step ?s) [Suc q ..< wlen] (v, of_nat q) = (v, of_nat q)"
    by (rule fold_peak_below) simp
  show ?thesis
    unfolding find_peak_def peak_step_def [symmetric] split
    by (simp add: a b c)
qed

lemma s5_channel: "s5_data ibd c = (\<lambda>i. if i = s5_peaks ! c then 80 else 0)"
  by (simp add: s5_data_def fun_eq_iff)

lemma s5_find_peak:
  "c < 8 \<Longrightarrow> find_peak 128 (s5_data ibd c) = (80, of_nat (s5_peaks ! c))"
proof -
  assume "c < 8"
  then have "c \<in> {0, 1, 2, 3, 4, 5, 6, 7}" by auto
  then have "s5_peaks ! c < 128" by (auto simp: s5_peaks_def)
  then show ?thesis
    unfolding s5_channel by (rule find_peak_spike) simp
qed


lemma cal_dev_fields:
  "channel_read_mask cal_dev MASTER = 0xff" "fd cal_dev MASTER = 3"
  by (simp_all add: cal_dev_def example_defs)

lemma s5_scan:
  "c < 8 \<Longrightarrow> scan_channel 128 cal_dev s5_data MASTER c p =
     (let mi = of_nat (s5_peaks ! c);
          p1 = p\<lparr>max_i := (max_i p)(MASTER := (max_i p MASTER)(c := mi))\<rparr>;
          p2 = (if mi < min_max_i p1 then p1\<lparr>min_max_i := mi\<rparr> else p1);
          p3 = (if mi > max_max_i p2 then p2\<lparr>max_max_i := mi\<rparr> else p2)
      in if 80 < min_max_v p3 then p3\<lparr>min_max_v := 80\<rparr> else p3)"
proof -
  assume c: "c < 8"
  then have "c \<in> {0, 1, 2, 3, 4, 5, 6, 7}" by auto
  then have en: "push_bit c (1 :: u8) AND 0xff \<noteq> 0" by auto
  show ?thesis
    using en by (simp add: scan_channel_def cal_dev_fields s5_find_peak [OF c] Let_def)
qed

lemma s5_found:
  "min_max_i (find_peaks 128 cal_dev s5_data) = 100"
  "max_max_i (find_peaks 128 cal_dev s5_data) = 105"
  "min_max_v (find_peaks 128 cal_dev s5_data) = 80"
  "max_i (find_peaks 128 cal_dev s5_data) MASTER 0 = 100"
  "max_i (find_peaks 128 cal_dev s5_data) MASTER (Suc 0) = 101"
  "max_i (find_peaks 128 cal_dev s5_data) MASTER 2 = 104"
  "max_i (find_peaks 128 cal_dev s5_data) MASTER 3 = 105"
  "max_i (find_peaks 128 cal_dev s5_data) MASTER 4 = 100"
  "max_i (find_peaks 128 cal_dev s5_data) MASTER 5 = 102"
  "max_i (find_peaks 128 cal_dev s5_data) MASTER 6 = 103"
  "max_i (find_peaks 128 cal_dev s5_data) MASTER 7 = 105"
  unfolding find_peaks_master
  by (simp_all add: s5_scan s5_peaks_def Let_def)

lemma s5_delays:
  "adc_delay (find_peaks 128 cal_dev s5_data) MASTER 0 = 0"
  "adc_delay (find_peaks 128 cal_dev s5_data) MASTER (Suc 0) = 4"
  "adc_delay (find_peaks 128 cal_dev s5_data) MASTER 2 = 1"
  "adc_delay (find_peaks 128 cal_dev s5_data) MASTER 3 = 4"
  by (simp_all add: s5_found adc_delay_def c_div_def)

lemma s5_attempt:
  "alignment_attempt 128 cal_dev s5_data w
     = (True, write_adc_delays cal_dev (find_peaks 128 cal_dev s5_data) w)"
  by (simp add: alignment_attempt_def s5_found MIN_GOOD_MAX_V_def Let_def)

lemma s5_log:
  "spi_log (write_adc_delays cal_dev (find_peaks 128 cal_dev s5_data) w)
     = spi_log w @ [(3, Some (Frame 0x39 0 0x14 0x14)), (3, Some (Frame 0x3a 0 0x11 0x11)),
                    (3, Some (Frame 0x3b 0 0x14 0x14))]"
  by (simp add: log_write_adc_delays delay_entry_def s5_delays cal_dev_fields
        adc_delay_frame_def REG_ADC_DELAYS_def)

text \<open>
  C7, as stated: on an accepted attempt the delay of every enabled pair is written,
  also when it is 0. For the calibration event of scenario S5 the attempt is accepted,
  pair 0 is enabled and its delay is \<open>(100 + 101 - 200) / 2 = 0\<close>; the three writes made
  are for the ADCs 1, 2 and 3, and register \<open>0x38\<close> of ADC 0 is not written.
\<close>

theorem zero_adc_delay_not_written:
  "fst (alignment_attempt 128 cal_dev s5_data (new_world xfer_all rx_zero write_all clock_zero))
   \<and> push_bit (2 * 0) 1 AND channel_read_mask cal_dev MASTER \<noteq> 0
   \<and> adc_delay (find_peaks 128 cal_dev s5_data) MASTER 0 = 0
   \<and> spi_log (snd (alignment_attempt 128 cal_dev s5_data
        (new_world xfer_all rx_zero write_all clock_zero)))
       = [(3, Some (Frame 0x39 0 0x14 0x14)), (3, Some (Frame 0x3a 0 0x11 0x11)),
          (3, Some (Frame 0x3b 0 0x14 0x14))]"
  by (simp add: s5_attempt s5_log s5_delays cal_dev_fields new_world_def)

text \<open>What an accepted attempt logs for the delay register of one ADC pair, as the loop
  computes it.\<close>

lemma adc_delay_log_entry:
  assumes acc: "alignment_attempt wlen d data w = (True, w')"
      and k: "k < BN_NUM_CHAN div 2"
      and even: "push_bit (2 * k) 1 AND channel_read_mask d MASTER \<noteq> 0"
      and odd: "push_bit (2 * k + 1) 1 AND channel_read_mask d MASTER \<noteq> 0"
  shows "uint (adc_delay (find_peaks wlen d data) MASTER k)
           = (uint (max_i (find_peaks wlen d data) MASTER (2 * k))
               + uint (max_i (find_peaks wlen d data) MASTER (2 * k + 1))) div 2
             - uint (min_max_i (find_peaks wlen d data))
       \<and> filter (\<lambda>x. map_option fb0 (snd x) = Some (REG_ADC_DELAYS + of_nat k))
            (drop (length (spi_log w)) (spi_log w'))
           = (if adc_delay (find_peaks wlen d data) MASTER k = 0 then []
              else [(fd d MASTER,
                     Some (adc_delay_frame k (adc_delay (find_peaks wlen d data) MASTER k)))])"
proof -
  let ?p = "find_peaks wlen d data"
  from k have k4: "k < 4" by (simp add: BN_NUM_CHAN_def)
  from acc have spread: "uint (max_max_i ?p) - uint (min_max_i ?p) \<le> 16"
    and w': "w' = write_adc_delays d ?p w"
    by (auto simp: alignment_attempt_def Let_def split: if_splits)
  from k4 have c0: "2 * k < 8" and c1: "2 * k + 1 < 8" by simp_all
  note b0 = find_peaks_bound [OF c0 even, of wlen data]
  note b1 = find_peaks_bound [OF c1 odd, of wlen data]
  have val: "uint (adc_delay ?p MASTER k)
               = (uint (max_i ?p MASTER (2 * k)) + uint (max_i ?p MASTER (2 * k + 1))) div 2
                 - uint (min_max_i ?p)"
    unfolding adc_delay_def
    using b0 b1 spread
    by (intro adc_delay_value [where M = "uint (max_max_i ?p)"]) (simp_all add: word_le_def)
  have en: "delay_entry d ?p MASTER k
              = (if adc_delay ?p MASTER k = 0 then []
                 else [(fd d MASTER, Some (adc_delay_frame k (adc_delay ?p MASTER k)))])"
    using even by (simp add: delay_entry_def)
  define P :: "int \<times> frame option \<Rightarrow> bool"
    where "P = (\<lambda>x. map_option fb0 (snd x) = Some (REG_ADC_DELAYS + of_nat k))"
  have f: "\<And>i. i < 4 \<Longrightarrow>
             filter P (delay_entry d ?p MASTER i) = (if i = k then delay_entry d ?p MASTER k else [])"
    unfolding P_def using k4 by (rule filter_delay_entry [rotated])
  have dr: "drop (length (spi_log w)) (spi_log w')
              = concat (map (delay_entry d ?p MASTER) [0, 1, 2, 3])"
    by (simp only: w' log_write_adc_delays drop_length_append)
  from k4 have "k = 0 \<or> k = 1 \<or> k = 2 \<or> k = 3" by auto
  then have "filter P (drop (length (spi_log w)) (spi_log w')) = delay_entry d ?p MASTER k"
    unfolding dr by (elim disjE) (simp_all add: f)
  then have "filter (\<lambda>x. map_option fb0 (snd x) = Some (REG_ADC_DELAYS + of_nat k))
            (drop (length (spi_log w)) (spi_log w'))
          = delay_entry d ?p MASTER k"
    unfolding P_def .
  with val en show ?thesis by (simp only:)
qed

lemma low_nibble_same:
  fixes x :: u8
  assumes "x \<le> 15"
  shows "x AND 0xf = x"
proof -
  from assms have "x < 2 ^ 4" by (simp add: word_le_nat_alt word_less_nat_alt)
  then have "x AND mask 4 = x" by (rule less_mask_eq)
  then show ?thesis by (simp add: mask_eq_exp_minus_1)
qed

lemma adc_delay_frame_small:
  fixes x :: u8
  assumes "x \<le> 15"
  shows "adc_delay_frame k x = Frame (REG_ADC_DELAYS + of_nat k) 0 (x OR 0x10) (x OR 0x10)"
  using low_nibble_same [OF assms] by (simp add: adc_delay_frame_def)

text \<open>
  C7, amended: on an accepted attempt, for every ADC pair \<open>k\<close> of the master whose two
  channels are enabled, the delay is \<open>(peak_idx[2k] + peak_idx[2k+1]) / 2 - min_peak_idx\<close>;
  when it is between 1 and 15 the driver writes exactly one frame to the delay register
  \<open>0x38 + k\<close>, carrying that value with the apply bit set in bytes 2 and 3, and when it is
  0 the driver writes nothing to that register.
\<close>

theorem adc_delay_written_when_positive:
  assumes acc: "alignment_attempt wlen d data w = (True, w')"
      and k: "k < BN_NUM_CHAN div 2"
      and even: "push_bit (2 * k) 1 AND channel_read_mask d MASTER \<noteq> 0"
      and odd: "push_bit (2 * k + 1) 1 AND channel_read_mask d MASTER \<noteq> 0"
  shows "uint (adc_delay (find_peaks wlen d data) MASTER k)
           = (uint (max_i (find_peaks wlen d data) MASTER (2 * k))
               + uint (max_i (find_peaks wlen d data) MASTER (2 * k + 1))) div 2
             - uint (min_max_i (find_peaks wlen d data))
       \<and> (adc_delay (find_peaks wlen d data) MASTER k = 0 \<longrightarrow>
            filter (\<lambda>x. map_option fb0 (snd x) = Some (REG_ADC_DELAYS + of_nat k))
              (drop (length (spi_log w)) (spi_log w')) = [])
       \<and> (adc_delay (find_peaks wlen d data) MASTER k \<noteq> 0
            \<and> adc_delay (find_peaks wlen d data) MASTER k \<le> 15 \<longrightarrow>
            filter (\<lambda>x. map_option fb0 (snd x) = Some (REG_ADC_DELAYS + of_nat k))
              (drop (length (spi_log w)) (spi_log w'))
            = [(fd d MASTER,
                Some (Frame (REG_ADC_DELAYS + of_nat k) 0
                        (adc_delay (find_peaks wlen d data) MASTER k OR 0x10)
                        (adc_delay (find_peaks wlen d data) MASTER k OR 0x10)))])"
proof -
  let ?delay = "adc_delay (find_peaks wlen d data) MASTER k"
  note e = adc_delay_log_entry [OF acc k even odd]
  have small: "?delay \<le> 15 \<Longrightarrow>
      adc_delay_frame k ?delay = Frame (REG_ADC_DELAYS + of_nat k) 0 (?delay OR 0x10) (?delay OR 0x10)"
    by (rule adc_delay_frame_small)
  show ?thesis
  proof (intro conjI impI)
    show "uint ?delay
            = (uint (max_i (find_peaks wlen d data) MASTER (2 * k))
                + uint (max_i (find_peaks wlen d data) MASTER (2 * k + 1))) div 2
              - uint (min_max_i (find_peaks wlen d data))"
      using e by (rule conjunct1)
  next
    assume "?delay = 0"
    with e show "filter (\<lambda>x. map_option fb0 (snd x) = Some (REG_ADC_DELAYS + of_nat k))
              (drop (length (spi_log w)) (spi_log w')) = []"
      by simp
  next
    assume a: "?delay \<noteq> 0 \<and> ?delay \<le> 15"
    then have "adc_delay_frame k ?delay
                 = Frame (REG_ADC_DELAYS + of_nat k) 0 (?delay OR 0x10) (?delay OR 0x10)"
      using small by blast
    with a e show "filter (\<lambda>x. map_option fb0 (snd x) = Some (REG_ADC_DELAYS + of_nat k))
              (drop (length (spi_log w)) (spi_log w'))
            = [(fd d MASTER,
                Some (Frame (REG_ADC_DELAYS + of_nat k) 0 (?delay OR 0x10) (?delay OR 0x10)))]"
      by simp
  qed
qed

theorem adc_delay_written_when_positive_witness:
  "alignment_attempt 128 cal_dev s5_data (new_world xfer_all rx_zero write_all clock_zero)
     = (True, write_adc_delays cal_dev (find_peaks 128 cal_dev s5_data)
                (new_world xfer_all rx_zero write_all clock_zero))
   \<and> Suc 0 < BN_NUM_CHAN div 2
   \<and> push_bit (2 * Suc 0) 1 AND channel_read_mask cal_dev MASTER \<noteq> 0
   \<and> push_bit (2 * Suc 0 + 1) 1 AND channel_read_mask cal_dev MASTER \<noteq> 0
   \<and> adc_delay (find_peaks 128 cal_dev s5_data) MASTER (Suc 0) = 4
   \<and> uint (adc_delay (find_peaks 128 cal_dev s5_data) MASTER (Suc 0)) = (104 + 105) div 2 - 100
   \<and> filter (\<lambda>x. map_option fb0 (snd x) = Some (REG_ADC_DELAYS + of_nat (Suc 0)))
        (drop (length (spi_log (new_world xfer_all rx_zero write_all clock_zero)))
           (spi_log (write_adc_delays cal_dev (find_peaks 128 cal_dev s5_data)
                       (new_world xfer_all rx_zero write_all clock_zero))))
       = [(3, Some (Frame 0x39 0 0x14 0x14))]"
proof -
  let ?w = "new_world xfer_all rx_zero write_all clock_zero"
  let ?w' = "write_adc_delays cal_dev (find_peaks 128 cal_dev s5_data) ?w"
  have acc: "alignment_attempt 128 cal_dev s5_data ?w = (True, ?w')"
    by (rule s5_attempt)
  have k: "Suc 0 < BN_NUM_CHAN div 2" by (simp add: BN_NUM_CHAN_def)
  have ev: "push_bit (2 * Suc 0) 1 AND channel_read_mask cal_dev MASTER \<noteq> 0"
    by (simp add: cal_dev_fields)
  have od: "push_bit (2 * Suc 0 + 1) 1 AND channel_read_mask cal_dev MASTER \<noteq> 0"
    by (simp add: cal_dev_fields)
  have dl: "adc_delay (find_peaks 128 cal_dev s5_data) MASTER (Suc 0) = 4"
    by (simp add: s5_delays)
  have v: "uint (adc_delay (find_peaks 128 cal_dev s5_data) MASTER (Suc 0)) = (104 + 105) div 2 - 100"
    by (simp add: s5_delays)
  from adc_delay_written_when_positive [OF acc k ev od]
  have "filter (\<lambda>x. map_option fb0 (snd x) = Some (REG_ADC_DELAYS + of_nat (Suc 0)))
          (drop (length (spi_log ?w)) (spi_log ?w'))
        = [(3, Some (Frame 0x39 0 0x14 0x14))]"
    by (simp add: dl cal_dev_fields REG_ADC_DELAYS_def)
  with acc k ev od dl v show ?thesis by blast
qed

end
